theory Spec2Isabelle
  imports Main "HOL-Library.Char_ord" "HOL-Library.List_Lexorder" "HOL-Library.Sublist"
begin

section \<open>Shared vocabulary: JSON values, HTTP messages, errors\<close>

text \<open>
  The packages \<^verbatim>\<open>goauth2\<close> and \<^verbatim>\<open>gphoto\<close> talk to the provider through
  \<^verbatim>\<open>net/http\<close> and \<^verbatim>\<open>encoding/json\<close>.  Neither library is part of the repository.
  The text layer of \<^verbatim>\<open>encoding/json\<close> (scanning bytes, escapes, number syntax) is
  abstracted: a JSON text is represented by the value it denotes.  Member order and
  duplicate member names are kept, a number keeps its literal.
\<close>

datatype json =
    JNull
  | JBool bool
  | JNumber string
  | JString string
  | JArray "json list"
  | JObject "(string \<times> json) list"

text \<open>
  The bytes of a response body, as the validity scan at the start of
  \<^verbatim>\<open>json.Unmarshal\<close> classifies them: empty (the scanner reports "unexpected end of
  JSON input"), not a JSON text, or a JSON text.  A body is a stream that
  \<^verbatim>\<open>ioutil.ReadAll\<close> reads to its end or fails on.
\<close>

datatype content = Empty | NotJSON | JSONText json

datatype body = Unreadable | Readable content

record Response =
  StatusCode :: int
  Body :: body

datatype payload = NoPayload | FormPayload string | JSONPayload json

record Request =
  Method :: string
  URL :: string
  Header :: "(string \<times> string list) list"
  Payload :: payload

datatype error = ErrDo | ErrReadAll | ErrMarshal | ErrSyntax | ErrUnmarshalType

datatype panic = SliceBoundsOutOfRange | NilPointerDereference

text \<open>\<^verbatim>\<open>(*http.Client).Do\<close>: an error or a response.\<close>

type_synonym transport = "Request \<Rightarrow> error + Response"

subsection \<open>Package gclient\<close>

definition ContentTypeHeader :: string where
  "ContentTypeHeader = ''Content-type''"

definition ContentTypeJSON :: string where
  "ContentTypeJSON = ''application/json''"

definition ContentTypeForm :: string where
  "ContentTypeForm = ''application/x-www-form-urlencoded''"

definition AuthorizationHeader :: string where
  "AuthorizationHeader = ''Authorization''"

text \<open>\<^verbatim>\<open>fmt.Sprintf(AuthorizationParam, t)\<close> with \<^verbatim>\<open>AuthorizationParam = "Bearer %s"\<close>.\<close>

definition AuthorizationParam :: "string \<Rightarrow> string" where
  "AuthorizationParam t = ''Bearer '' @ t"

subsection \<open>\<^verbatim>\<open>net/http\<close> header keys\<close>

definition is_upper :: "char \<Rightarrow> bool" where
  "is_upper ch = (65 \<le> (of_char ch :: nat) \<and> (of_char ch :: nat) \<le> 90)"

definition is_lower :: "char \<Rightarrow> bool" where
  "is_lower ch = (97 \<le> (of_char ch :: nat) \<and> (of_char ch :: nat) \<le> 122)"

definition is_digit :: "char \<Rightarrow> bool" where
  "is_digit ch = (48 \<le> (of_char ch :: nat) \<and> (of_char ch :: nat) \<le> 57)"

definition to_upper :: "char \<Rightarrow> char" where
  "to_upper ch = (if is_lower ch then char_of ((of_char ch :: nat) - 32) else ch)"

definition to_lower :: "char \<Rightarrow> char" where
  "to_lower ch = (if is_upper ch then char_of ((of_char ch :: nat) + 32) else ch)"

definition validHeaderFieldByte :: "char \<Rightarrow> bool" where
  "validHeaderFieldByte ch =
     (is_upper ch \<or> is_lower ch \<or> is_digit ch \<or> ch \<in> set ''!#$%&*+-.^_|~'' \<or> ch = CHR 0x27 \<or> ch = CHR 0x60)"

fun canonical_from :: "bool \<Rightarrow> string \<Rightarrow> string" where
  "canonical_from up [] = []"
| "canonical_from up (ch # rest) =
     (if up then to_upper ch else to_lower ch) # canonical_from (ch = CHR ''-'') rest"

text \<open>
  \<^verbatim>\<open>textproto.CanonicalMIMEHeaderKey\<close>: a key with a byte that is not a token byte is
  returned as it is; otherwise the first letter and every letter after a hyphen is put
  in upper case and the others in lower case.
\<close>

definition CanonicalMIMEHeaderKey :: "string \<Rightarrow> string" where
  "CanonicalMIMEHeaderKey k = (if list_all validHeaderFieldByte k then canonical_from True k else k)"

definition Header_Set :: "string \<Rightarrow> string \<Rightarrow> (string \<times> string list) list \<Rightarrow> (string \<times> string list) list" where
  "Header_Set k v h =
     filter (\<lambda>kv. fst kv \<noteq> CanonicalMIMEHeaderKey k) h @ [(CanonicalMIMEHeaderKey k, [v])]"

definition Header_Add :: "string \<Rightarrow> string \<Rightarrow> (string \<times> string list) list \<Rightarrow> (string \<times> string list) list" where
  "Header_Add k v h =
     (if CanonicalMIMEHeaderKey k \<in> fst ` set h
      then map (\<lambda>kv. if fst kv = CanonicalMIMEHeaderKey k then (fst kv, snd kv @ [v]) else kv) h
      else h @ [(CanonicalMIMEHeaderKey k, [v])])"

subsection \<open>\<^verbatim>\<open>net/http\<close>: the client over its transport\<close>

text \<open>
  \<^verbatim>\<open>(*http.Client).Do\<close> sends the request through the client's \<^verbatim>\<open>RoundTripper\<close> and
  follows redirects.  An \<open>Answer\<close> is the response \<^verbatim>\<open>RoundTrip\<close> returns: its status
  code, its \<^verbatim>\<open>Location\<close> header and its body.  The header is absent or empty
  (\<open>NoLocation\<close>), does not parse as a URL reference (\<open>BadLocation\<close>), or resolves
  against the URL of the request to a target.
\<close>

datatype location = NoLocation | BadLocation | Target string

record Answer =
  Code :: int
  Location :: location
  Content :: body






subsection \<open>\<^verbatim>\<open>net/url\<close> form encoding\<close>

definition upperhex :: "nat \<Rightarrow> char" where
  "upperhex n = ''0123456789ABCDEF'' ! (n mod 16)"

text \<open>\<^verbatim>\<open>url.QueryEscape\<close>, byte by byte.\<close>

definition escape_byte :: "char \<Rightarrow> string" where
  "escape_byte ch =
     (if is_upper ch \<or> is_lower ch \<or> is_digit ch \<or> ch \<in> set ''-_.~'' then [ch]
      else if ch = CHR '' '' then ''+''
      else [CHR ''%'', upperhex ((of_char ch :: nat) div 16), upperhex (of_char ch :: nat)])"

definition QueryEscape :: "string \<Rightarrow> string" where
  "QueryEscape s = concat (map escape_byte s)"

text \<open>\<^verbatim>\<open>url.Values\<close> is a map from a key to its values.\<close>

type_synonym Values = "(string \<times> string list) list"

definition Values_Add :: "string \<Rightarrow> string \<Rightarrow> Values \<Rightarrow> Values" where
  "Values_Add k v vs =
     (if k \<in> fst ` set vs
      then map (\<lambda>kv. if fst kv = k then (k, snd kv @ [v]) else kv) vs
      else vs @ [(k, [v])])"

definition Values_Set :: "string \<Rightarrow> string \<Rightarrow> Values \<Rightarrow> Values" where
  "Values_Set k v vs = filter (\<lambda>kv. fst kv \<noteq> k) vs @ [(k, [v])]"

fun join_amp :: "string list \<Rightarrow> string" where
  "join_amp [] = []"
| "join_amp [s] = s"
| "join_amp (s # t # ss) = s @ ''&'' @ join_amp (t # ss)"

text \<open>\<^verbatim>\<open>Values.Encode\<close>: sorted by key, every key and value escaped.\<close>

definition Values_Encode :: "Values \<Rightarrow> string" where
  "Values_Encode vs =
     join_amp (concat (map (\<lambda>kv. map (\<lambda>v. QueryEscape (fst kv) @ ''='' @ QueryEscape v) (snd kv))
                           (sort_key fst vs)))"


subsection \<open>\<^verbatim>\<open>io/ioutil\<close> and \<^verbatim>\<open>encoding/json\<close>: decoding\<close>

definition ReadAll :: "body \<Rightarrow> error + content" where
  "ReadAll b = (case b of Unreadable \<Rightarrow> Inl ErrReadAll | Readable bytes \<Rightarrow> Inr bytes)"

text \<open>
  A decoder takes the JSON value and the current content of its target and gives the
  new content and the error it recorded.  A value of the wrong type for the target is
  an \<^verbatim>\<open>UnmarshalTypeError\<close>: the target is left as it was, decoding goes on with
  the next value, and the first such error is the one returned in the end.
\<close>

definition saveError :: "error option \<Rightarrow> error option \<Rightarrow> error option" where
  "saveError saved e = (case saved of None \<Rightarrow> e | Some first \<Rightarrow> Some first)"

text \<open>
  \<^verbatim>\<open>json.Unmarshal(data, &v)\<close>: bytes that are not a JSON text are a
  \<^verbatim>\<open>SyntaxError\<close> and \<open>v\<close> is not touched; otherwise the value is decoded into \<open>v\<close>.
\<close>

definition Unmarshal :: "(json \<Rightarrow> 's \<Rightarrow> 's \<times> error option) \<Rightarrow> content \<Rightarrow> 's \<Rightarrow> 's \<times> error option" where
  "Unmarshal dec data v = (case data of JSONText j \<Rightarrow> dec j v | _ \<Rightarrow> (v, Some ErrSyntax))"

text \<open>
  A member of a JSON object is stored in the struct field whose name equals the
  member's name under Unicode simple case folding.  The field names of this repository
  are ASCII, so the names that fold onto them differ in the case of ASCII letters, or
  have U+212A KELVIN SIGN (bytes E2 84 AA) for a k or U+017F LATIN SMALL LETTER LONG S
  (bytes C5 BF) for an s.  No two fields of one struct of this repository fold to the
  same name.
\<close>

fun foldName :: "string \<Rightarrow> string" where
  "foldName [] = []"
| "foldName (ch # rest) =
     (if ch = CHR 0xE2 \<and> take 2 rest = [CHR 0x84, CHR 0xAA] then CHR ''K'' # foldName (drop 2 rest)
      else if ch = CHR 0xC5 \<and> take 1 rest = [CHR 0xBF] then CHR ''S'' # foldName (drop 1 rest)
      else to_upper ch # foldName rest)"

definition matches :: "string \<Rightarrow> string \<Rightarrow> bool" where
  "matches field_name member_name = (foldName member_name = foldName field_name)"

definition digits_val :: "string \<Rightarrow> int" where
  "digits_val ds = foldl (\<lambda>acc ch. 10 * acc + ((of_char ch :: int) - 48)) 0 ds"

text \<open>\<^verbatim>\<open>strconv.ParseInt(s, 10, 64)\<close>: an optional sign and decimal digits, within int64.\<close>

definition ParseInt64 :: "string \<Rightarrow> int option" where
  "ParseInt64 s =
     (let neg = (take 1 s = ''-'');
          ds = (if neg \<or> take 1 s = ''+'' then drop 1 s else s);
          n = (if neg then - digits_val ds else digits_val ds)
      in if ds \<noteq> [] \<and> list_all is_digit ds \<and> - (2 ^ 63) \<le> n \<and> n < 2 ^ 63 then Some n else None)"

definition decode_string :: "json \<Rightarrow> string \<Rightarrow> string \<times> error option" where
  "decode_string j old =
     (case j of
        JString s \<Rightarrow> (s, None)
      | JNull \<Rightarrow> (old, None)
      | _ \<Rightarrow> (old, Some ErrUnmarshalType))"

definition decode_int64 :: "json \<Rightarrow> int \<Rightarrow> int \<times> error option" where
  "decode_int64 j old =
     (case j of
        JNumber lit \<Rightarrow> (case ParseInt64 lit of Some n \<Rightarrow> (n, None) | None \<Rightarrow> (old, Some ErrUnmarshalType))
      | JNull \<Rightarrow> (old, None)
      | _ \<Rightarrow> (old, Some ErrUnmarshalType))"

text \<open>
  A \<^verbatim>\<open>float64\<close> target.  Floating point is not modelled: the type of the values is a
  parameter \<open>'f\<close> and so is \<^verbatim>\<open>strconv.ParseFloat(lit, 64)\<close>, here \<open>parseFloat\<close>.
\<close>

definition decode_float64 :: "(string \<Rightarrow> 'f option) \<Rightarrow> json \<Rightarrow> 'f \<Rightarrow> 'f \<times> error option" where
  "decode_float64 parseFloat j old =
     (case j of
        JNumber lit \<Rightarrow> (case parseFloat lit of Some x \<Rightarrow> (x, None) | None \<Rightarrow> (old, Some ErrUnmarshalType))
      | JNull \<Rightarrow> (old, None)
      | _ \<Rightarrow> (old, Some ErrUnmarshalType))"

text \<open>
  A pointer target: \<^verbatim>\<open>null\<close> sets it to nil; for any other value a nil pointer is
  first pointed at a new zero value, and the value is decoded into what the pointer
  points at.
\<close>

definition decode_ptr :: "(json \<Rightarrow> 'a \<Rightarrow> 'a \<times> error option) \<Rightarrow> 'a \<Rightarrow> json \<Rightarrow> 'a option \<Rightarrow> 'a option \<times> error option" where
  "decode_ptr dec zero j old =
     (case j of
        JNull \<Rightarrow> (None, None)
      | _ \<Rightarrow> apfst Some (dec j (case old of None \<Rightarrow> zero | Some v \<Rightarrow> v)))"

text \<open>
  A slice is the elements within its length and the storage behind them up to its
  capacity: \<open>spare\<close> is what that storage holds beyond the length.  New storage is
  zero, so \<open>spare\<close> lists only the elements written earlier and cut off since.
\<close>

datatype 'a slice = Slice (elems: "'a list") (spare: "'a list")

text \<open>
  The elements of an array are decoded one by one, each into what the storage of the
  slice holds at its index: an element written earlier, within the length or beyond
  it, or else a zero value.
\<close>

fun decode_elems :: "(json \<Rightarrow> 'a \<Rightarrow> 'a \<times> error option) \<Rightarrow> 'a \<Rightarrow> json list \<Rightarrow> 'a list \<Rightarrow> 'a list \<times> error option" where
  "decode_elems dec zero [] old = ([], None)"
| "decode_elems dec zero (j # js) old =
     (case dec j (case old of [] \<Rightarrow> zero | v # _ \<Rightarrow> v) of
        (x, e1) \<Rightarrow>
          (case decode_elems dec zero js (drop 1 old) of
             (xs, e2) \<Rightarrow> (x # xs, saveError e1 e2)))"

text \<open>
  A slice target: \<^verbatim>\<open>null\<close> sets it to nil and an empty array to a new empty slice,
  both without storage.  Another array sets the length to the number of its elements
  and leaves the storage beyond them as it is.  Any other value is an error and
  changes nothing.
\<close>

definition decode_slice :: "(json \<Rightarrow> 'a \<Rightarrow> 'a \<times> error option) \<Rightarrow> 'a \<Rightarrow> json \<Rightarrow> 'a slice \<Rightarrow> 'a slice \<times> error option" where
  "decode_slice dec zero j old =
     (case j of
        JArray js \<Rightarrow>
          (if js = [] then (Slice [] [], None)
           else (case decode_elems dec zero js (elems old @ spare old) of
                   (xs, e) \<Rightarrow> (Slice xs (drop (length js) (elems old @ spare old)), e)))
      | JNull \<Rightarrow> (Slice [] [], None)
      | _ \<Rightarrow> (old, Some ErrUnmarshalType))"

text \<open>
  A struct target: the members of an object are decoded in their order, each by
  \<open>field\<close>, which decodes a member into the field its name matches and skips a member
  that matches none; \<^verbatim>\<open>null\<close> changes nothing.
\<close>

fun decode_members :: "(string \<Rightarrow> json \<Rightarrow> 's \<Rightarrow> 's \<times> error option) \<Rightarrow> (string \<times> json) list \<Rightarrow> 's \<Rightarrow> 's \<times> error option" where
  "decode_members field [] s = (s, None)"
| "decode_members field (kv # kvs) s =
     (case field (fst kv) (snd kv) s of
        (s1, e1) \<Rightarrow>
          (case decode_members field kvs s1 of
             (s2, e2) \<Rightarrow> (s2, saveError e1 e2)))"

definition decode_struct :: "(string \<Rightarrow> json \<Rightarrow> 's \<Rightarrow> 's \<times> error option) \<Rightarrow> json \<Rightarrow> 's \<Rightarrow> 's \<times> error option" where
  "decode_struct field j old =
     (case j of
        JObject kvs \<Rightarrow> decode_members field kvs old
      | JNull \<Rightarrow> (old, None)
      | _ \<Rightarrow> (old, Some ErrUnmarshalType))"


subsection \<open>\<^verbatim>\<open>encoding/json\<close>: encoding\<close>

fun digits_of :: "nat \<Rightarrow> string" where
  "digits_of n =
     (if n < 10 then [char_of (48 + n)] else digits_of (n div 10) @ [char_of (48 + n mod 10)])"

text \<open>\<^verbatim>\<open>strconv.FormatInt(n, 10)\<close>, the way an integer field is written.\<close>

definition FormatInt :: "int \<Rightarrow> string" where
  "FormatInt n = (if n < 0 then CHR ''-'' # digits_of (nat (- n)) else digits_of (nat n))"

text \<open>
  \<^verbatim>\<open>utf8.DecodeRuneInString\<close>: the number of bytes of the encoded code point at the
  head of a string, or 0 when the head is not a valid encoding.
\<close>

definition continues :: "nat \<Rightarrow> nat \<Rightarrow> string \<Rightarrow> bool" where
  "continues lo hi s = (case s of [] \<Rightarrow> False | b # _ \<Rightarrow> lo \<le> (of_char b :: nat) \<and> (of_char b :: nat) \<le> hi)"

definition rune_len :: "string \<Rightarrow> nat" where
  "rune_len s =
     (case s of
        [] \<Rightarrow> 0
      | b0 # rest \<Rightarrow>
          (let n0 = (of_char b0 :: nat);
               two = (\<lambda>lo hi. if continues lo hi rest then 2 else 0);
               three = (\<lambda>lo hi. if continues lo hi rest \<and> continues 0x80 0xBF (drop 1 rest) then 3 else 0);
               four = (\<lambda>lo hi. if continues lo hi rest \<and> continues 0x80 0xBF (drop 1 rest)
                                  \<and> continues 0x80 0xBF (drop 2 rest) then 4 else 0)
           in if n0 < 0x80 then 1
              else if 0xC2 \<le> n0 \<and> n0 \<le> 0xDF then two 0x80 0xBF
              else if n0 = 0xE0 then three 0xA0 0xBF
              else if (0xE1 \<le> n0 \<and> n0 \<le> 0xEC) \<or> n0 = 0xEE \<or> n0 = 0xEF then three 0x80 0xBF
              else if n0 = 0xED then three 0x80 0x9F
              else if n0 = 0xF0 then four 0x90 0xBF
              else if 0xF1 \<le> n0 \<and> n0 \<le> 0xF3 then four 0x80 0xBF
              else if n0 = 0xF4 then four 0x80 0x8F
              else 0))"

text \<open>
  The string a JSON text written by \<^verbatim>\<open>json.Marshal\<close> denotes for a Go string: every
  byte that does not begin a valid encoding is replaced by U+FFFD (bytes EF BF BD); the
  escapes the encoder writes denote the characters they stand for.  \<open>pending\<close> counts
  the bytes still to copy of the code point begun.
\<close>

fun coerce_from :: "nat \<Rightarrow> string \<Rightarrow> string" where
  "coerce_from pending [] = []"
| "coerce_from pending (b # rest) =
     (if 0 < pending then b # coerce_from (pending - 1) rest
      else (case rune_len (b # rest) of
              0 \<Rightarrow> [CHR 0xEF, CHR 0xBF, CHR 0xBD] @ coerce_from 0 rest
            | Suc n \<Rightarrow> b # coerce_from n rest))"

definition encode_string :: "string \<Rightarrow> json" where
  "encode_string s = JString (coerce_from 0 s)"

text \<open>
  A struct field tagged \<^verbatim>\<open>`json:"name,omitempty"`\<close>: left out when its value is empty
  (false, 0, a nil pointer, an empty string or a slice of length 0), else written as a
  member named \<open>name\<close>.
\<close>

definition omitempty :: "string \<Rightarrow> bool \<Rightarrow> json \<Rightarrow> (string \<times> json) list" where
  "omitempty name is_empty v = (if is_empty then [] else [(name, v)])"

definition encode_ptr :: "('a \<Rightarrow> json) \<Rightarrow> 'a option \<Rightarrow> json" where
  "encode_ptr enc p = (case p of None \<Rightarrow> JNull | Some v \<Rightarrow> enc v)"

section \<open>Package goauth2\<close>

definition oauthURI :: string where
  "oauthURI = ''https://accounts.google.com/o/oauth2/v2/auth''"

definition authorizationURI :: string where
  "authorizationURI = ''https://www.googleapis.com/oauth2/v4/token''"

definition redirectURI :: string where
  "redirectURI = ''urn:ietf:wg:oauth:2.0:oob''"

definition responseType :: string where
  "responseType = ''code''"

definition accessType :: string where
  "accessType = ''offline''"

definition grantTypeAuthorizationCode :: string where
  "grantTypeAuthorizationCode = ''authorization_code''"

definition grantTypeRefreshToken :: string where
  "grantTypeRefreshToken = ''refresh_token''"

record AuthorizationResponse =
  AccessToken :: string
  IDToken :: string
  ExpiresIn :: int
  TokenType :: string
  RefreshToken :: string

text \<open>
  The struct \<^verbatim>\<open>goauth2.Client\<close>.  Its field \<^verbatim>\<open>c *http.Client\<close> is \<open>goauth2_c\<close>:
  \<open>None\<close> is the nil pointer, \<open>Some t\<close> a client whose \<^verbatim>\<open>Do\<close> is \<open>t\<close>.
\<close>

record goauth2_Client =
  goauth2_c :: "transport option"
  clientID :: string
  clientSecret :: string
  accessToken :: string
  accessTokenExpire :: int
  refreshToken :: string
  scope :: string

definition GetRefreshToken :: "goauth2_Client \<Rightarrow> string" where
  "GetRefreshToken cl = refreshToken cl"

definition GetAccessToken :: "goauth2_Client \<Rightarrow> string" where
  "GetAccessToken cl = accessToken cl"

definition goauth2_NewClient :: "string \<Rightarrow> string \<Rightarrow> goauth2_Client" where
  "goauth2_NewClient cid secret =
     \<lparr>goauth2_c = None, clientID = cid, clientSecret = secret, accessToken = [],
      accessTokenExpire = 0, refreshToken = [], scope = []\<rparr>"

definition WithAccessToken :: "goauth2_Client \<Rightarrow> string \<Rightarrow> goauth2_Client" where
  "WithAccessToken cl tok = cl\<lparr>accessToken := tok\<rparr>"

definition WithScope :: "goauth2_Client \<Rightarrow> string \<Rightarrow> goauth2_Client" where
  "WithScope cl s = cl\<lparr>scope := s\<rparr>"

definition WithHTTPClient :: "goauth2_Client \<Rightarrow> transport option \<Rightarrow> goauth2_Client" where
  "WithHTTPClient cl client = cl\<lparr>goauth2_c := client\<rparr>"

text \<open>The loop of \<^verbatim>\<open>WithScopes\<close>: two \<^verbatim>\<open>WriteString\<close> calls for every scope.\<close>

fun WithScopes_loop :: "string \<Rightarrow> string list \<Rightarrow> string" where
  "WithScopes_loop builder [] = builder"
| "WithScopes_loop builder (s # scopes) = WithScopes_loop ((builder @ s) @ ''&'') scopes"

text \<open>
  The slice expression \<^verbatim>\<open>s[:hi]\<close> on a string: Go panics unless \<open>0 \<le> hi \<le> len(s)\<close>.
\<close>

definition slice_to :: "string \<Rightarrow> int \<Rightarrow> panic + string" where
  "slice_to s hi =
     (if hi < 0 \<or> int (length s) < hi then Inl SliceBoundsOutOfRange else Inr (take (nat hi) s))"

definition WithScopes :: "goauth2_Client \<Rightarrow> string list \<Rightarrow> panic + goauth2_Client" where
  "WithScopes cl scopes =
     (let s = WithScopes_loop [] scopes in
      case slice_to s (int (length s) - 1) of
        Inl p \<Rightarrow> Inl p
      | Inr t \<Rightarrow> Inr (cl\<lparr>scope := t\<rparr>))"

definition GetOAuthURI :: "goauth2_Client \<Rightarrow> string" where
  "GetOAuthURI cl =
     oauthURI @ ''?'' @ ''&client_id='' @ clientID cl @ ''&redirect_uri='' @ redirectURI
       @ ''&scope='' @ scope cl @ ''&access_type='' @ accessType
       @ ''&response_type='' @ responseType"

definition zero_AuthorizationResponse :: AuthorizationResponse where
  "zero_AuthorizationResponse =
     \<lparr>AccessToken = [], IDToken = [], ExpiresIn = 0, TokenType = [], RefreshToken = []\<rparr>"

text \<open>The struct tags of \<^verbatim>\<open>AuthorizationResponse\<close>.\<close>

definition AuthorizationResponse_field :: "string \<Rightarrow> json \<Rightarrow> AuthorizationResponse \<Rightarrow> AuthorizationResponse \<times> error option" where
  "AuthorizationResponse_field k v r =
     (if matches ''access_token'' k then apfst (\<lambda>x. r\<lparr>AccessToken := x\<rparr>) (decode_string v (AccessToken r))
      else if matches ''id_token'' k then apfst (\<lambda>x. r\<lparr>IDToken := x\<rparr>) (decode_string v (IDToken r))
      else if matches ''expires_in'' k then apfst (\<lambda>x. r\<lparr>ExpiresIn := x\<rparr>) (decode_int64 v (ExpiresIn r))
      else if matches ''token_type'' k then apfst (\<lambda>x. r\<lparr>TokenType := x\<rparr>) (decode_string v (TokenType r))
      else if matches ''refresh_token'' k then apfst (\<lambda>x. r\<lparr>RefreshToken := x\<rparr>) (decode_string v (RefreshToken r))
      else (r, None))"

definition decode_AuthorizationResponse :: "json \<Rightarrow> AuthorizationResponse \<Rightarrow> AuthorizationResponse \<times> error option" where
  "decode_AuthorizationResponse = decode_struct AuthorizationResponse_field"

text \<open>
  The request \<^verbatim>\<open>Authorization\<close> hands to \<^verbatim>\<open>c.c.Do\<close>.  \<^verbatim>\<open>http.NewRequest\<close> fails
  only on a method or a URL that is not valid, and both are constants here.  The
  context is passed on to the transport.
\<close>

definition Authorization_request :: "goauth2_Client \<Rightarrow> string \<Rightarrow> Request" where
  "Authorization_request cl authorizationCode =
     (let params =
            Values_Add ''access_type'' accessType
              (Values_Add ''grant_type'' grantTypeAuthorizationCode
                (Values_Add ''redirect_uri'' redirectURI
                  (Values_Add ''client_secret'' (clientSecret cl)
                    (Values_Add ''client_id'' (clientID cl)
                      (Values_Add ''code'' authorizationCode [])))))
      in \<lparr>Method = ''POST'', URL = authorizationURI,
          Header = Header_Add ContentTypeHeader ContentTypeForm [],
          Payload = FormPayload (Values_Encode params)\<rparr>)"

text \<open>
  \<^verbatim>\<open>Authorization\<close> changes the client in place and returns an error or nil: the
  model returns the client after the call and the error.  A nil \<^verbatim>\<open>c.c\<close> is a nil
  pointer dereference in \<^verbatim>\<open>Do\<close>.  What \<^verbatim>\<open>log.Println\<close> prints is not modelled.
\<close>

definition Authorization :: "goauth2_Client \<Rightarrow> string \<Rightarrow> panic + (goauth2_Client \<times> error option)" where
  "Authorization cl authorizationCode =
     (case goauth2_c cl of
        None \<Rightarrow> Inl NilPointerDereference
      | Some client \<Rightarrow>
          (case client (Authorization_request cl authorizationCode) of
             Inl err \<Rightarrow> Inr (cl, Some err)
           | Inr rawResponse \<Rightarrow>
               (case ReadAll (Body rawResponse) of
                  Inl err \<Rightarrow> Inr (cl, Some err)
                | Inr responseBuf \<Rightarrow>
                    (case Unmarshal decode_AuthorizationResponse responseBuf zero_AuthorizationResponse of
                       (response, Some err) \<Rightarrow> Inr (cl, Some err)
                     | (response, None) \<Rightarrow>
                         Inr (cl\<lparr>accessToken := AccessToken response,
                                 accessTokenExpire := ExpiresIn response,
                                 refreshToken := RefreshToken response\<rparr>, None)))))"

definition Refresh_request :: "goauth2_Client \<Rightarrow> Request" where
  "Refresh_request cl =
     (let params =
            Values_Set ''refresh_token'' (refreshToken cl)
              (Values_Set ''grant_type'' grantTypeRefreshToken
                (Values_Set ''client_secret'' (clientSecret cl)
                  (Values_Set ''client_id'' (clientID cl) [])))
      in \<lparr>Method = ''POST'', URL = authorizationURI,
          Header = Header_Add ContentTypeHeader ContentTypeForm [],
          Payload = FormPayload (Values_Encode params)\<rparr>)"

text \<open>
  \<^verbatim>\<open>Refresh\<close> stores its argument as the client's refresh token before anything
  else (\<open>cl1\<close>), so every later return, the failing ones too, leaves it stored.
\<close>

definition Refresh :: "goauth2_Client \<Rightarrow> string \<Rightarrow> panic + (goauth2_Client \<times> error option)" where
  "Refresh cl refreshToken' =
     (let cl1 = cl\<lparr>refreshToken := refreshToken'\<rparr> in
      case goauth2_c cl1 of
        None \<Rightarrow> Inl NilPointerDereference
      | Some client \<Rightarrow>
          (case client (Refresh_request cl1) of
             Inl err \<Rightarrow> Inr (cl1, Some err)
           | Inr rawResponse \<Rightarrow>
               (case ReadAll (Body rawResponse) of
                  Inl err \<Rightarrow> Inr (cl1, Some err)
                | Inr responseBuf \<Rightarrow>
                    (case Unmarshal decode_AuthorizationResponse responseBuf zero_AuthorizationResponse of
                       (response, Some err) \<Rightarrow> Inr (cl1, Some err)
                     | (response, None) \<Rightarrow>
                         (let cl2 = (if AccessToken response \<noteq> []
                                     then cl1\<lparr>accessToken := AccessToken response,
                                              accessTokenExpire := ExpiresIn response\<rparr>
                                     else cl1);
                              cl3 = (if RefreshToken response \<noteq> []
                                     then cl2\<lparr>refreshToken := RefreshToken response\<rparr>
                                     else cl2)
                          in Inr (cl3, None))))))"


section \<open>Package gphoto\<close>

definition baseURL :: string where
  "baseURL = ''https://photoslibrary.googleapis.com/v1/''"

definition mediaItemsSearchEndpoint :: string where
  "mediaItemsSearchEndpoint = ''mediaItems:search''"

definition ScopeLibraryReadOnly :: string where
  "ScopeLibraryReadOnly = ''https://www.googleapis.com/auth/photoslibrary.readonly''"

text \<open>The struct \<^verbatim>\<open>gphoto.Client\<close>; its field \<^verbatim>\<open>c *http.Client\<close> is \<open>gphoto_c\<close>.\<close>

record gphoto_Client =
  gphoto_c :: "transport option"
  token :: string

record PagerRequest =
  PageSize :: string
  PageToken :: string

record PagerResponse =
  NextPageToken :: string

record Date =
  Year :: int
  Month :: int
  Day :: int

record DateRange =
  StartDate :: "Date option"
  EndDate :: "Date option"

record DateFilter =
  Dates :: "Date option list"
  Ranges :: "DateRange option list"

type_synonym ContentCategory = string

record ContentFilter =
  IncludedContentCategories :: "ContentCategory list"
  ExcludedContentCategories :: "ContentCategory list"

type_synonym MediaType = string

record MediaTypeFilter =
  MediaTypes :: "MediaType list"

type_synonym Feature = string

record FeatureFilter =
  IncludedFeatures :: "Feature list"

record Filters =
  DateFilter :: "DateFilter option"
  ContentFilter :: "ContentFilter option"
  MediaTypeFilter :: "MediaTypeFilter option"
  FeatureFilter :: "FeatureFilter option"
  IncludeArchivedMedia :: bool
  ExcludeNonAppCreatedData :: bool

text \<open>The embedded struct \<^verbatim>\<open>PagerRequest\<close> is a field; its members are promoted in JSON.\<close>

record MediaItemsSearchRequest =
  PagerRequest :: PagerRequest
  AlbumID :: string
  Filters :: "Filters option"

type_synonym VideoProcessingStatus = string

record 'f Photo =
  CameraMake :: string
  CameraModel :: string
  FocalLength :: 'f
  ApertureFNumber :: 'f
  IsoEquivalent :: 'f
  ExposureTime :: string

text \<open>
  \<^verbatim>\<open>Video\<close> has fields \<^verbatim>\<open>CameraMake\<close> and \<^verbatim>\<open>CameraModel\<close> as \<^verbatim>\<open>Photo\<close> has; they
  are \<open>Video_CameraMake\<close> and \<open>Video_CameraModel\<close> here.
\<close>

record 'f Video =
  Video_CameraMake :: string
  Video_CameraModel :: string
  Fps :: 'f
  Status :: VideoProcessingStatus

record ContributorInfo =
  ProfilePictureBaseURL :: string
  DisplayName :: string

record 'f MediaMetadata =
  CreationTime :: string
  Width :: string
  Height :: string
  Photo :: "'f Photo option"
  Video :: "'f Video option"

record 'f MediaItem =
  ID :: string
  Description :: string
  ProductURL :: string
  BaseURL :: string
  MimeType :: string
  MediaMetadata :: "'f MediaMetadata option"
  ContributorInfo :: "ContributorInfo option"
  Filename :: string

record 'f MediaItemsSearchResponse =
  PagerResponse :: PagerResponse
  MediaItems :: "'f MediaItem option slice"

definition ContentCategoryPets :: ContentCategory where
  "ContentCategoryPets = ''PETS''"

definition gphoto_NewClient :: "transport option \<Rightarrow> string \<Rightarrow> gphoto_Client" where
  "gphoto_NewClient client tok = \<lparr>gphoto_c = client, token = tok\<rparr>"

subsection \<open>The request as JSON\<close>

definition encode_Date :: "Date \<Rightarrow> json" where
  "encode_Date d =
     JObject (omitempty ''year'' (Year d = 0) (JNumber (FormatInt (Year d)))
            @ omitempty ''month'' (Month d = 0) (JNumber (FormatInt (Month d)))
            @ omitempty ''day'' (Day d = 0) (JNumber (FormatInt (Day d))))"

definition encode_DateRange :: "DateRange \<Rightarrow> json" where
  "encode_DateRange r =
     JObject (omitempty ''startDate'' (StartDate r = None) (encode_ptr encode_Date (StartDate r))
            @ omitempty ''endDate'' (EndDate r = None) (encode_ptr encode_Date (EndDate r)))"

definition encode_DateFilter :: "DateFilter \<Rightarrow> json" where
  "encode_DateFilter f =
     JObject (omitempty ''dates'' (Dates f = []) (JArray (map (encode_ptr encode_Date) (Dates f)))
            @ omitempty ''ranges'' (Ranges f = []) (JArray (map (encode_ptr encode_DateRange) (Ranges f))))"

definition encode_ContentFilter :: "ContentFilter \<Rightarrow> json" where
  "encode_ContentFilter f =
     JObject (omitempty ''includedContentCategories'' (IncludedContentCategories f = [])
                (JArray (map encode_string (IncludedContentCategories f)))
            @ omitempty ''excludedContentCategories'' (ExcludedContentCategories f = [])
                (JArray (map encode_string (ExcludedContentCategories f))))"

definition encode_MediaTypeFilter :: "MediaTypeFilter \<Rightarrow> json" where
  "encode_MediaTypeFilter f =
     JObject (omitempty ''mediaTypes'' (MediaTypes f = []) (JArray (map encode_string (MediaTypes f))))"

definition encode_FeatureFilter :: "FeatureFilter \<Rightarrow> json" where
  "encode_FeatureFilter f =
     JObject (omitempty ''includedFeatures'' (IncludedFeatures f = [])
                (JArray (map encode_string (IncludedFeatures f))))"

definition encode_Filters :: "Filters \<Rightarrow> json" where
  "encode_Filters f =
     JObject (omitempty ''dateFilter'' (DateFilter f = None) (encode_ptr encode_DateFilter (DateFilter f))
            @ omitempty ''contentFilter'' (ContentFilter f = None)
                (encode_ptr encode_ContentFilter (ContentFilter f))
            @ omitempty ''mediaTypeFilter'' (MediaTypeFilter f = None)
                (encode_ptr encode_MediaTypeFilter (MediaTypeFilter f))
            @ omitempty ''featureFilter'' (FeatureFilter f = None)
                (encode_ptr encode_FeatureFilter (FeatureFilter f))
            @ omitempty ''includeArchivedMedia'' (\<not> IncludeArchivedMedia f)
                (JBool (IncludeArchivedMedia f))
            @ omitempty ''excludeNonAppCreatedData'' (\<not> ExcludeNonAppCreatedData f)
                (JBool (ExcludeNonAppCreatedData f)))"

definition encode_MediaItemsSearchRequest :: "MediaItemsSearchRequest \<Rightarrow> json" where
  "encode_MediaItemsSearchRequest r =
     JObject (omitempty ''pageSize'' (PageSize (PagerRequest r) = []) (encode_string (PageSize (PagerRequest r)))
            @ omitempty ''pageToken'' (PageToken (PagerRequest r) = []) (encode_string (PageToken (PagerRequest r)))
            @ omitempty ''albumId'' (AlbumID r = []) (encode_string (AlbumID r))
            @ omitempty ''filters'' (Filters r = None) (encode_ptr encode_Filters (Filters r)))"

text \<open>
  \<^verbatim>\<open>json.Marshal(req)\<close> for \<^verbatim>\<open>req *MediaItemsSearchRequest\<close>: it has no error for
  these types, and a nil pointer is written as \<^verbatim>\<open>null\<close>.
\<close>

definition Marshal_MediaItemsSearchRequest :: "MediaItemsSearchRequest option \<Rightarrow> error + json" where
  "Marshal_MediaItemsSearchRequest req = Inr (encode_ptr encode_MediaItemsSearchRequest req)"

subsection \<open>The response from JSON\<close>

definition zero_Photo :: "'f::zero Photo" where
  "zero_Photo =
     \<lparr>CameraMake = [], CameraModel = [], FocalLength = 0, ApertureFNumber = 0,
      IsoEquivalent = 0, ExposureTime = []\<rparr>"

definition zero_Video :: "'f::zero Video" where
  "zero_Video = \<lparr>Video_CameraMake = [], Video_CameraModel = [], Fps = 0, Status = []\<rparr>"

definition zero_ContributorInfo :: ContributorInfo where
  "zero_ContributorInfo = \<lparr>ProfilePictureBaseURL = [], DisplayName = []\<rparr>"

definition zero_MediaMetadata :: "'f MediaMetadata" where
  "zero_MediaMetadata = \<lparr>CreationTime = [], Width = [], Height = [], Photo = None, Video = None\<rparr>"

definition zero_MediaItem :: "'f MediaItem" where
  "zero_MediaItem =
     \<lparr>ID = [], Description = [], ProductURL = [], BaseURL = [], MimeType = [],
      MediaMetadata = None, ContributorInfo = None, Filename = []\<rparr>"

definition zero_MediaItemsSearchResponse :: "'f MediaItemsSearchResponse" where
  "zero_MediaItemsSearchResponse = \<lparr>PagerResponse = \<lparr>NextPageToken = []\<rparr>, MediaItems = Slice [] []\<rparr>"

definition Photo_field :: "(string \<Rightarrow> 'f option) \<Rightarrow> string \<Rightarrow> json \<Rightarrow> 'f Photo \<Rightarrow> 'f Photo \<times> error option" where
  "Photo_field parseFloat k v r =
     (if matches ''cameraMake'' k then apfst (\<lambda>x. r\<lparr>CameraMake := x\<rparr>) (decode_string v (CameraMake r))
      else if matches ''cameraModel'' k then apfst (\<lambda>x. r\<lparr>CameraModel := x\<rparr>) (decode_string v (CameraModel r))
      else if matches ''focalLength'' k
        then apfst (\<lambda>x. r\<lparr>FocalLength := x\<rparr>) (decode_float64 parseFloat v (FocalLength r))
      else if matches ''apertureFNumber'' k
        then apfst (\<lambda>x. r\<lparr>ApertureFNumber := x\<rparr>) (decode_float64 parseFloat v (ApertureFNumber r))
      else if matches ''isoEquivalent'' k
        then apfst (\<lambda>x. r\<lparr>IsoEquivalent := x\<rparr>) (decode_float64 parseFloat v (IsoEquivalent r))
      else if matches ''exposureTime'' k then apfst (\<lambda>x. r\<lparr>ExposureTime := x\<rparr>) (decode_string v (ExposureTime r))
      else (r, None))"

definition Video_field :: "(string \<Rightarrow> 'f option) \<Rightarrow> string \<Rightarrow> json \<Rightarrow> 'f Video \<Rightarrow> 'f Video \<times> error option" where
  "Video_field parseFloat k v r =
     (if matches ''cameraMake'' k
        then apfst (\<lambda>x. r\<lparr>Video_CameraMake := x\<rparr>) (decode_string v (Video_CameraMake r))
      else if matches ''cameraModel'' k
        then apfst (\<lambda>x. r\<lparr>Video_CameraModel := x\<rparr>) (decode_string v (Video_CameraModel r))
      else if matches ''fps'' k then apfst (\<lambda>x. r\<lparr>Fps := x\<rparr>) (decode_float64 parseFloat v (Fps r))
      else if matches ''status'' k then apfst (\<lambda>x. r\<lparr>Status := x\<rparr>) (decode_string v (Status r))
      else (r, None))"

definition ContributorInfo_field :: "string \<Rightarrow> json \<Rightarrow> ContributorInfo \<Rightarrow> ContributorInfo \<times> error option" where
  "ContributorInfo_field k v r =
     (if matches ''profilePictureBaseUrl'' k
        then apfst (\<lambda>x. r\<lparr>ProfilePictureBaseURL := x\<rparr>) (decode_string v (ProfilePictureBaseURL r))
      else if matches ''displayName'' k then apfst (\<lambda>x. r\<lparr>DisplayName := x\<rparr>) (decode_string v (DisplayName r))
      else (r, None))"

definition MediaMetadata_field :: "(string \<Rightarrow> 'f::zero option) \<Rightarrow> string \<Rightarrow> json \<Rightarrow> 'f MediaMetadata \<Rightarrow> 'f MediaMetadata \<times> error option" where
  "MediaMetadata_field parseFloat k v r =
     (if matches ''creationTime'' k then apfst (\<lambda>x. r\<lparr>CreationTime := x\<rparr>) (decode_string v (CreationTime r))
      else if matches ''width'' k then apfst (\<lambda>x. r\<lparr>Width := x\<rparr>) (decode_string v (Width r))
      else if matches ''height'' k then apfst (\<lambda>x. r\<lparr>Height := x\<rparr>) (decode_string v (Height r))
      else if matches ''photo'' k
        then apfst (\<lambda>x. r\<lparr>Photo := x\<rparr>)
               (decode_ptr (decode_struct (Photo_field parseFloat)) zero_Photo v (Photo r))
      else if matches ''video'' k
        then apfst (\<lambda>x. r\<lparr>Video := x\<rparr>)
               (decode_ptr (decode_struct (Video_field parseFloat)) zero_Video v (Video r))
      else (r, None))"

definition MediaItem_field :: "(string \<Rightarrow> 'f::zero option) \<Rightarrow> string \<Rightarrow> json \<Rightarrow> 'f MediaItem \<Rightarrow> 'f MediaItem \<times> error option" where
  "MediaItem_field parseFloat k v r =
     (if matches ''id'' k then apfst (\<lambda>x. r\<lparr>ID := x\<rparr>) (decode_string v (ID r))
      else if matches ''description'' k then apfst (\<lambda>x. r\<lparr>Description := x\<rparr>) (decode_string v (Description r))
      else if matches ''productUrl'' k then apfst (\<lambda>x. r\<lparr>ProductURL := x\<rparr>) (decode_string v (ProductURL r))
      else if matches ''baseUrl'' k then apfst (\<lambda>x. r\<lparr>BaseURL := x\<rparr>) (decode_string v (BaseURL r))
      else if matches ''mimeType'' k then apfst (\<lambda>x. r\<lparr>MimeType := x\<rparr>) (decode_string v (MimeType r))
      else if matches ''mediaMetadata'' k
        then apfst (\<lambda>x. r\<lparr>MediaMetadata := x\<rparr>)
               (decode_ptr (decode_struct (MediaMetadata_field parseFloat)) zero_MediaMetadata v (MediaMetadata r))
      else if matches ''contributorInfo'' k
        then apfst (\<lambda>x. r\<lparr>ContributorInfo := x\<rparr>)
               (decode_ptr (decode_struct ContributorInfo_field) zero_ContributorInfo v (ContributorInfo r))
      else if matches ''filename'' k then apfst (\<lambda>x. r\<lparr>Filename := x\<rparr>) (decode_string v (Filename r))
      else (r, None))"

text \<open>One element of \<^verbatim>\<open>MediaItems []*MediaItem\<close>.\<close>

definition decode_MediaItem_ptr :: "(string \<Rightarrow> 'f::zero option) \<Rightarrow> json \<Rightarrow> 'f MediaItem option \<Rightarrow> 'f MediaItem option \<times> error option" where
  "decode_MediaItem_ptr parseFloat = decode_ptr (decode_struct (MediaItem_field parseFloat)) zero_MediaItem"

definition MediaItemsSearchResponse_field :: "(string \<Rightarrow> 'f::zero option) \<Rightarrow> string \<Rightarrow> json \<Rightarrow> 'f MediaItemsSearchResponse \<Rightarrow> 'f MediaItemsSearchResponse \<times> error option" where
  "MediaItemsSearchResponse_field parseFloat k v r =
     (if matches ''nextPageToken'' k
        then apfst (\<lambda>x. r\<lparr>PagerResponse := (PagerResponse r)\<lparr>NextPageToken := x\<rparr>\<rparr>)
               (decode_string v (NextPageToken (PagerResponse r)))
      else if matches ''mediaItems'' k
        then apfst (\<lambda>x. r\<lparr>MediaItems := x\<rparr>)
               (decode_slice (decode_MediaItem_ptr parseFloat) None v (MediaItems r))
      else (r, None))"

definition decode_MediaItemsSearchResponse :: "(string \<Rightarrow> 'f::zero option) \<Rightarrow> json \<Rightarrow> 'f MediaItemsSearchResponse \<Rightarrow> 'f MediaItemsSearchResponse \<times> error option" where
  "decode_MediaItemsSearchResponse parseFloat = decode_struct (MediaItemsSearchResponse_field parseFloat)"

subsection \<open>request and MediaItemsSearch\<close>

text \<open>
  The \<^verbatim>\<open>rawRequest\<close> that \<^verbatim>\<open>request\<close> hands to \<^verbatim>\<open>c.c.Do\<close>, with its header replaced
  and set; \<open>buf\<close> is the marshalled request.  \<^verbatim>\<open>http.NewRequest\<close> does not fail on the
  URL of the one endpoint of this package.
\<close>

definition rawRequest :: "gphoto_Client \<Rightarrow> string \<Rightarrow> json \<Rightarrow> Request" where
  "rawRequest cl endpoint buf =
     \<lparr>Method = ''POST'', URL = baseURL @ endpoint,
      Header = Header_Set ContentTypeHeader ContentTypeJSON
                 (Header_Set AuthorizationHeader (AuthorizationParam (token cl)) []),
      Payload = JSONPayload buf\<rparr>"

text \<open>
  \<^verbatim>\<open>request\<close> takes \<^verbatim>\<open>req\<close> and \<^verbatim>\<open>response\<close> as \<^verbatim>\<open>interface{}\<close>; here the encoder
  of the one and the decoder of the other are arguments.  It fills \<^verbatim>\<open>response\<close> in
  place and returns an error or nil: the model returns the response after the call and
  the error.
\<close>

definition request :: "gphoto_Client \<Rightarrow> string \<Rightarrow> ('q \<Rightarrow> error + json) \<Rightarrow> 'q \<Rightarrow> (json \<Rightarrow> 'r \<Rightarrow> 'r \<times> error option) \<Rightarrow> 'r \<Rightarrow> panic + ('r \<times> error option)" where
  "request cl endpoint marshal req dec response =
     (case marshal req of
        Inl err \<Rightarrow> Inr (response, Some err)
      | Inr buf \<Rightarrow>
          (case gphoto_c cl of
             None \<Rightarrow> Inl NilPointerDereference
           | Some client \<Rightarrow>
               (case client (rawRequest cl endpoint buf) of
                  Inl err \<Rightarrow> Inr (response, Some err)
                | Inr rawResponse \<Rightarrow>
                    (case ReadAll (Body rawResponse) of
                       Inl err \<Rightarrow> Inr (response, Some err)
                     | Inr responseBuf \<Rightarrow> Inr (Unmarshal dec responseBuf response)))))"

text \<open>
  \<^verbatim>\<open>MediaItemsSearch\<close> returns \<^verbatim>\<open>&response\<close> and the error: the pointer is \<open>Some\<close> of
  what it points at, a nil pointer would be \<open>None\<close>.
\<close>

definition MediaItemsSearch :: "(string \<Rightarrow> 'f::zero option) \<Rightarrow> gphoto_Client \<Rightarrow> MediaItemsSearchRequest option \<Rightarrow> panic + ('f MediaItemsSearchResponse option \<times> error option)" where
  "MediaItemsSearch parseFloat cl req =
     (case request cl mediaItemsSearchEndpoint Marshal_MediaItemsSearchRequest req
             (decode_MediaItemsSearchResponse parseFloat) zero_MediaItemsSearchResponse of
        Inl p \<Rightarrow> Inl p
      | Inr (response, err) \<Rightarrow> Inr (Some response, err))"


section \<open>Vocabulary of the properties\<close>

subsection \<open>Stub providers and token state\<close>

text \<open>A provider that answers every request with the same status and body.\<close>

definition stub_provider :: "int \<Rightarrow> body \<Rightarrow> transport" where
  "stub_provider status b = (\<lambda>req. Inr \<lparr>StatusCode = status, Body = b\<rparr>)"







text \<open>The token state of the specification: access token, its expiry, refresh token.\<close>

definition token_state :: "goauth2_Client \<Rightarrow> string \<times> int \<times> string" where
  "token_state cl = (accessToken cl, accessTokenExpire cl, refreshToken cl)"

text \<open>
  A client with credentials, an HTTP client that is the stub provider, access token
  \<open>A1\<close> and refresh token \<open>R1\<close>.
\<close>

definition stub_client :: "int \<Rightarrow> body \<Rightarrow> goauth2_Client" where
  "stub_client status b =
     (WithAccessToken
        (WithHTTPClient (goauth2_NewClient ''id'' ''secret'') (Some (stub_provider status b)))
        ''A1'')\<lparr>refreshToken := ''R1''\<rparr>"

text \<open>
  The error classes of the specification: a \<open>ProtocolError\<close> is a body that cannot be
  parsed into the expected shape, a \<open>NetworkError\<close> a failure of the transport.
\<close>

definition ProtocolError :: "error \<Rightarrow> bool" where
  "ProtocolError e = (e = ErrSyntax \<or> e = ErrUnmarshalType)"

definition NetworkError :: "error \<Rightarrow> bool" where
  "NetworkError e = (e = ErrDo \<or> e = ErrReadAll)"

subsection \<open>Members of a JSON object\<close>

definition members :: "json \<Rightarrow> (string \<times> json) list" where
  "members j = (case j of JObject kvs \<Rightarrow> kvs | _ \<Rightarrow> [])"

definition member_names :: "json \<Rightarrow> string list" where
  "member_names j = map fst (members j)"

text \<open>The value written under a name, if any.\<close>

definition lookup :: "string \<Rightarrow> json \<Rightarrow> json option" where
  "lookup name j = map_of (members j) name"

text \<open>A response carries a field when one of its members is decoded into it.\<close>

definition has_member :: "string \<Rightarrow> json \<Rightarrow> bool" where
  "has_member name j = list_ex (\<lambda>kv. matches name (fst kv)) (members j)"

text \<open>
  The values of the members that are decoded into a field, in their order, and what
  the field holds after they have been decoded one after the other over \<open>init\<close>.
\<close>

definition members_for :: "string \<Rightarrow> json \<Rightarrow> json list" where
  "members_for name j = map snd (filter (\<lambda>kv. matches name (fst kv)) (members j))"

definition field_value :: "(json \<Rightarrow> 'a \<Rightarrow> 'a \<times> error option) \<Rightarrow> string \<Rightarrow> json \<Rightarrow> 'a \<Rightarrow> 'a" where
  "field_value dec name j init = fold (\<lambda>v x. fst (dec v x)) (members_for name j) init"

subsection \<open>The query string of a URL\<close>

fun split_on :: "char \<Rightarrow> string \<Rightarrow> string list" where
  "split_on sep [] = [[]]"
| "split_on sep (ch # rest) =
     (if ch = sep then [] # split_on sep rest
      else (case split_on sep rest of [] \<Rightarrow> [[ch]] | seg # segs \<Rightarrow> (ch # seg) # segs))"

text \<open>The parts before and after the first separator.\<close>

definition cut :: "char \<Rightarrow> string \<Rightarrow> string \<times> string" where
  "cut sep s = (takeWhile (\<lambda>ch. ch \<noteq> sep) s, drop 1 (dropWhile (\<lambda>ch. ch \<noteq> sep) s))"

text \<open>The query is what stands between the first question mark and the fragment.\<close>

definition query_of :: "string \<Rightarrow> string" where
  "query_of url = snd (cut (CHR ''?'') (fst (cut (CHR ''#'') url)))"

text \<open>
  The parameters of a URL as a server reads them, before unescaping: the query is split
  at every ampersand, empty pieces are dropped, and a piece is split at its first
  equals sign into name and value.
\<close>

definition query_params :: "string \<Rightarrow> (string \<times> string) list" where
  "query_params url =
     map (cut (CHR ''='')) (filter (\<lambda>seg. seg \<noteq> []) (split_on (CHR ''&'') (query_of url)))"

definition is_hex :: "char \<Rightarrow> bool" where
  "is_hex ch = (is_digit ch \<or> ch \<in> set ''abcdefABCDEF'')"

text \<open>
  The bytes a parameter value may hold as they are (RFC 3986: unreserved characters,
  and the sub-delimiters, colon, at sign, slash and question mark a query admits, less
  the ampersand that ends a parameter).
\<close>

definition value_char :: "char \<Rightarrow> bool" where
  "value_char ch =
     (is_upper ch \<or> is_lower ch \<or> is_digit ch \<or> ch \<in> set ''-_.~!$()*+,;=:@/?'' \<or> ch = CHR 0x27)"

text \<open>
  A percent-encoded value: every byte is one a value may hold, or a percent sign
  followed by two hexadecimal digits.
\<close>

fun percent_encoded :: "string \<Rightarrow> bool" where
  "percent_encoded [] = True"
| "percent_encoded (ch # rest) =
     (if ch = CHR ''%''
      then (case rest of
              a # b # rest' \<Rightarrow> is_hex a \<and> is_hex b \<and> percent_encoded rest'
            | _ \<Rightarrow> False)
      else value_char ch \<and> percent_encoded rest)"

text \<open>The search request of \<^verbatim>\<open>main\<close>: a hundred items of the category PETS.\<close>

definition pets_request :: MediaItemsSearchRequest where
  "pets_request =
     \<lparr>PagerRequest = \<lparr>PageSize = ''100'', PageToken = []\<rparr>, AlbumID = [],
      Filters = Some
        \<lparr>DateFilter = None,
         ContentFilter = Some \<lparr>IncludedContentCategories = [ContentCategoryPets],
                               ExcludedContentCategories = []\<rparr>,
         MediaTypeFilter = None, FeatureFilter = None,
         IncludeArchivedMedia = False, ExcludeNonAppCreatedData = False\<rparr>\<rparr>"


section \<open>Properties of package goauth2\<close>

subsection \<open>WithScopes\<close>

lemma WithScopes_loop_concat:
  "WithScopes_loop b scopes = b @ concat (map (\<lambda>s. s @ ''&'') scopes)"
  by (induction scopes arbitrary: b) simp_all

lemma concat_amp_join:
  "scopes \<noteq> [] \<Longrightarrow> concat (map (\<lambda>s. s @ ''&'') scopes) = join_amp scopes @ ''&''"
  by (induction scopes rule: join_amp.induct) simp_all

lemma length_join_amp:
  "scopes \<noteq> [] \<Longrightarrow> length (join_amp scopes) + 1 = sum_list (map length scopes) + length scopes"
  by (induction scopes rule: join_amp.induct) simp_all

lemma WithScopes_loop_nonempty:
  "scopes \<noteq> [] \<Longrightarrow> WithScopes_loop [] scopes = join_amp scopes @ ''&''"
  by (simp add: WithScopes_loop_concat concat_amp_join)

text \<open>
  Claim C8.  For every non-empty list of scopes \<open>s1 .. sn\<close>, \<^verbatim>\<open>WithScopes\<close> returns
  normally and stores \<open>s1&s2&...&sn\<close> as the scope: the scopes in order with one
  ampersand between neighbours and none after the last, so the stored string is
  \<open>n - 1\<close> bytes longer than the scopes together.
\<close>

theorem WithScopes_joins_with_ampersand:
  assumes "scopes \<noteq> []"
  shows "WithScopes cl scopes = Inr (cl\<lparr>scope := join_amp scopes\<rparr>)
       \<and> length (join_amp scopes) = sum_list (map length scopes) + (length scopes - 1)"
proof -
  have stored: "WithScopes cl scopes = Inr (cl\<lparr>scope := join_amp scopes\<rparr>)"
    using assms by (simp add: WithScopes_def slice_to_def WithScopes_loop_nonempty)
  have "0 < length scopes"
    using assms by simp
  with length_join_amp [OF assms]
  have "length (join_amp scopes) = sum_list (map length scopes) + (length scopes - 1)"
    by arith
  with stored show ?thesis by simp
qed

theorem WithScopes_joins_with_ampersand_witness:
  "[''a'', ''bc'', ''d''] \<noteq> ([] :: string list)
   \<and> WithScopes (goauth2_NewClient ''id'' ''secret'') [''a'', ''bc'', ''d'']
       = Inr ((goauth2_NewClient ''id'' ''secret'')\<lparr>scope := ''a&bc&d''\<rparr>)
   \<and> length ''a&bc&d'' = 4 + (3 - 1)"
  using WithScopes_joins_with_ampersand [of "[''a'', ''bc'', ''d'']" "goauth2_NewClient ''id'' ''secret''"]
  by simp

text \<open>
  Claim C9.  With no scope at all the builder is empty, the slice expression
  \<^verbatim>\<open>s[:len(s)-1]\<close> has the bound \<open>-1\<close> and \<^verbatim>\<open>WithScopes\<close> panics instead of
  returning.  With at least one scope the bound lies between \<open>0\<close> and \<open>len(s)\<close> and the
  call returns a client.
\<close>

theorem WithScopes_panics_exactly_on_no_scopes:
  "WithScopes cl [] = Inl SliceBoundsOutOfRange
   \<and> int (length (WithScopes_loop [] [])) - 1 < 0
   \<and> (scopes \<noteq> [] \<longrightarrow>
        0 \<le> int (length (WithScopes_loop [] scopes)) - 1
        \<and> int (length (WithScopes_loop [] scopes)) - 1 \<le> int (length (WithScopes_loop [] scopes))
        \<and> (\<exists>cl'. WithScopes cl scopes = Inr cl'))"
proof -
  have empty: "WithScopes cl [] = Inl SliceBoundsOutOfRange"
    by (simp add: WithScopes_def slice_to_def)
  have some: "WithScopes cl scopes = Inr (cl\<lparr>scope := join_amp scopes\<rparr>)" if "scopes \<noteq> []"
    using that by (simp add: WithScopes_def slice_to_def WithScopes_loop_nonempty)
  have bound: "0 \<le> int (length (WithScopes_loop [] scopes)) - 1" if "scopes \<noteq> []"
    using that by (simp add: WithScopes_loop_nonempty)
  from empty some bound show ?thesis by auto
qed

theorem WithScopes_panics_exactly_on_no_scopes_witness:
  "WithScopes (goauth2_NewClient ''id'' ''secret'') [] = Inl SliceBoundsOutOfRange
   \<and> (\<exists>cl'. WithScopes (goauth2_NewClient ''id'' ''secret'')
                [''https://www.googleapis.com/auth/photoslibrary.readonly''] = Inr cl')"
  using WithScopes_panics_exactly_on_no_scopes
    [of "goauth2_NewClient ''id'' ''secret''" "[''https://www.googleapis.com/auth/photoslibrary.readonly'']"]
  by simp

subsection \<open>Refresh\<close>

lemma decode_members_frame:
  assumes step: "\<And>k v s. \<not> matches name k \<Longrightarrow> get (fst (field k v s)) = get s"
    and none: "\<not> list_ex (\<lambda>kv. matches name (fst kv)) kvs"
  shows "get (fst (decode_members field kvs s)) = get s"
  using none
proof (induction kvs arbitrary: s)
  case Nil
  then show ?case by simp
next
  case (Cons kv kvs)
  then have here: "\<not> matches name (fst kv)" and later: "\<not> list_ex (\<lambda>kv. matches name (fst kv)) kvs"
    by simp_all
  obtain s1 e1 where f: "field (fst kv) (snd kv) s = (s1, e1)"
    by (cases "field (fst kv) (snd kv) s")
  obtain s2 e2 where d: "decode_members field kvs s1 = (s2, e2)"
    by (cases "decode_members field kvs s1")
  have "get s2 = get s1"
    using Cons.IH [OF later, of s1] d by simp
  moreover have "get s1 = get s"
    using step [OF here, of "snd kv" s] f by simp
  ultimately show ?case
    using f d by simp
qed

lemma decode_struct_frame:
  assumes step: "\<And>k v s. \<not> matches name k \<Longrightarrow> get (fst (field k v s)) = get s"
    and none: "\<not> has_member name j"
  shows "get (fst (decode_struct field j s)) = get s"
proof (cases j)
  case (JObject kvs)
  then show ?thesis
    using decode_members_frame [of name get field kvs s, OF step] none
    by (simp add: decode_struct_def has_member_def members_def)
qed (simp_all add: decode_struct_def)

lemma AccessToken_frame:
  "\<not> matches ''access_token'' k \<Longrightarrow> AccessToken (fst (AuthorizationResponse_field k v s)) = AccessToken s"
  by (simp add: AuthorizationResponse_field_def)

lemma ExpiresIn_frame:
  "\<not> matches ''expires_in'' k \<Longrightarrow> ExpiresIn (fst (AuthorizationResponse_field k v s)) = ExpiresIn s"
  by (simp add: AuthorizationResponse_field_def)

lemma RefreshToken_frame:
  "\<not> matches ''refresh_token'' k \<Longrightarrow> RefreshToken (fst (AuthorizationResponse_field k v s)) = RefreshToken s"
  by (simp add: AuthorizationResponse_field_def)

lemma absent_access_token:
  "\<not> has_member ''access_token'' j \<Longrightarrow>
   AccessToken (fst (decode_AuthorizationResponse j zero_AuthorizationResponse)) = []"
  using decode_struct_frame [of "''access_token''" AccessToken AuthorizationResponse_field j zero_AuthorizationResponse]
  by (simp add: AccessToken_frame decode_AuthorizationResponse_def zero_AuthorizationResponse_def)

lemma absent_refresh_token:
  "\<not> has_member ''refresh_token'' j \<Longrightarrow>
   RefreshToken (fst (decode_AuthorizationResponse j zero_AuthorizationResponse)) = []"
  using decode_struct_frame [of "''refresh_token''" RefreshToken AuthorizationResponse_field j zero_AuthorizationResponse]
  by (simp add: RefreshToken_frame decode_AuthorizationResponse_def zero_AuthorizationResponse_def)

text \<open>What Refresh returns once a JSON text has arrived.\<close>

lemma Refresh_on_JSON:
  assumes "goauth2_c cl = Some client"
    and "client (Refresh_request (cl\<lparr>refreshToken := rt\<rparr>)) = Inr rawResponse"
    and "Body rawResponse = Readable (JSONText j)"
    and "decode_AuthorizationResponse j zero_AuthorizationResponse = (response, e)"
  shows "Refresh cl rt =
     (case e of
        Some err \<Rightarrow> Inr (cl\<lparr>refreshToken := rt\<rparr>, Some err)
      | None \<Rightarrow>
          Inr ((if RefreshToken response \<noteq> []
                then (\<lambda>c. c\<lparr>refreshToken := RefreshToken response\<rparr>) else id)
               ((if AccessToken response \<noteq> []
                 then (\<lambda>c. c\<lparr>accessToken := AccessToken response, accessTokenExpire := ExpiresIn response\<rparr>)
                 else id) (cl\<lparr>refreshToken := rt\<rparr>)), None))"
  using assms by (cases e) (simp_all add: Refresh_def ReadAll_def Unmarshal_def Let_def)

text \<open>
  Claim C1, as amended.  Take any client and any call of \<^verbatim>\<open>Refresh\<close> that the provider
  answers with a JSON text.  If no member of the response is decoded into
  \<^verbatim>\<open>access_token\<close>, the stored access token and its expiry are what they were before
  the call.  If no member is decoded into \<^verbatim>\<open>refresh_token\<close>, the stored refresh
  token is the argument of the call, which \<^verbatim>\<open>Refresh\<close> stores before it sends the
  request: it is the token stored before the call exactly when the caller passes that
  token.  The response never empties a token: an access token that is empty afterwards
  was empty before, and a refresh token that is empty afterwards was passed empty.
\<close>

theorem Refresh_keeps_what_the_response_lacks:
  assumes "goauth2_c cl = Some client"
    and "client (Refresh_request (cl\<lparr>refreshToken := rt\<rparr>)) = Inr rawResponse"
    and "Body rawResponse = Readable (JSONText j)"
  shows "\<exists>cl' err. Refresh cl rt = Inr (cl', err)
     \<and> (\<not> has_member ''access_token'' j \<longrightarrow>
          accessToken cl' = accessToken cl \<and> accessTokenExpire cl' = accessTokenExpire cl)
     \<and> (\<not> has_member ''refresh_token'' j \<longrightarrow> refreshToken cl' = rt)
     \<and> (accessToken cl' = [] \<longrightarrow> accessToken cl = [])
     \<and> (refreshToken cl' = [] \<longrightarrow> rt = [])"
proof -
  obtain response e where d: "decode_AuthorizationResponse j zero_AuthorizationResponse = (response, e)"
    by (cases "decode_AuthorizationResponse j zero_AuthorizationResponse")
  have a: "AccessToken response = []" if "\<not> has_member ''access_token'' j"
    using absent_access_token [OF that] d by simp
  have r: "RefreshToken response = []" if "\<not> has_member ''refresh_token'' j"
    using absent_refresh_token [OF that] d by simp
  show ?thesis
    using Refresh_on_JSON [OF assms d] a r by (cases e) auto
qed

lemmas eval_matches = has_member_def members_def matches_def to_upper_def is_lower_def

lemmas eval_stub = stub_client_def stub_provider_def WithAccessToken_def WithHTTPClient_def
  goauth2_NewClient_def

lemmas eval_decode_AuthorizationResponse = ReadAll_def Unmarshal_def decode_AuthorizationResponse_def
  decode_struct_def AuthorizationResponse_field_def decode_string_def decode_int64_def
  zero_AuthorizationResponse_def saveError_def matches_def to_upper_def is_lower_def

theorem Refresh_keeps_what_the_response_lacks_witness:
  "\<not> has_member ''access_token'' (JObject [(''token_type'', JString ''Bearer'')])
   \<and> \<not> has_member ''refresh_token'' (JObject [(''token_type'', JString ''Bearer'')])
   \<and> (\<exists>cl' err.
         Refresh (stub_client 200 (Readable (JSONText (JObject [(''token_type'', JString ''Bearer'')])))) ''R1''
           = Inr (cl', err)
         \<and> accessToken cl' = ''A1'' \<and> refreshToken cl' = ''R1'')"
proof -
  let ?j = "JObject [(''token_type'', JString ''Bearer'')]"
  let ?b = "Readable (JSONText ?j)"
  have no_access: "\<not> has_member ''access_token'' ?j"
    by (simp add: eval_matches)
  have no_refresh: "\<not> has_member ''refresh_token'' ?j"
    by (simp add: eval_matches)
  have c: "goauth2_c (stub_client 200 ?b) = Some (stub_provider 200 ?b)"
    by (simp add: eval_stub)
  have d: "stub_provider 200 ?b (Refresh_request ((stub_client 200 ?b)\<lparr>refreshToken := ''R1''\<rparr>))
             = Inr \<lparr>StatusCode = 200, Body = ?b\<rparr>"
    by (simp add: stub_provider_def)
  have b: "Body \<lparr>StatusCode = 200, Body = ?b\<rparr> = Readable (JSONText ?j)"
    by simp
  have tokens: "accessToken (stub_client 200 ?b) = ''A1''"
    by (simp add: eval_stub)
  from Refresh_keeps_what_the_response_lacks [OF c d b] no_access no_refresh tokens
  show ?thesis by auto
qed

text \<open>
  The claim as it was written fails: the stored refresh token is \<open>R1\<close>, the response
  has no \<^verbatim>\<open>refresh_token\<close>, and after \<^verbatim>\<open>Refresh\<close> with the argument \<open>R2\<close> the
  stored refresh token is \<open>R2\<close>.
\<close>

theorem Refresh_stores_its_argument_counterexample:
  "\<not> has_member ''refresh_token'' (JObject [(''access_token'', JString ''A2'')])
   \<and> token_state (stub_client 200 (Readable (JSONText (JObject [(''access_token'', JString ''A2'')]))))
       = (''A1'', 0, ''R1'')
   \<and> map_sum id (apfst token_state)
        (Refresh (stub_client 200 (Readable (JSONText (JObject [(''access_token'', JString ''A2'')])))) ''R2'')
       = Inr ((''A2'', 0, ''R2''), None)"
  by (simp add: eval_matches eval_stub token_state_def Refresh_def Refresh_request_def
      eval_decode_AuthorizationResponse Let_def)

subsection \<open>Refresh on a body that is not JSON\<close>

lemma Refresh_on_bad_text:
  assumes "goauth2_c cl = Some client"
    and "client (Refresh_request (cl\<lparr>refreshToken := rt\<rparr>)) = Inr rawResponse"
    and "Body rawResponse = Readable Empty \<or> Body rawResponse = Readable NotJSON"
  shows "Refresh cl rt = Inr (cl\<lparr>refreshToken := rt\<rparr>, Some ErrSyntax)"
  using assms by (auto simp: Refresh_def ReadAll_def Unmarshal_def Let_def)

text \<open>
  Claim C2, as amended.  Take any client, any refresh-token argument and a provider
  whose response body is empty or is not JSON.  \<^verbatim>\<open>Refresh\<close> fails with the syntax
  error of \<^verbatim>\<open>json.Unmarshal\<close>, a \<open>ProtocolError\<close>.  The client after the call is the
  client before it with the argument stored as refresh token: access token and expiry
  are unchanged, and the whole token state is unchanged when the argument is the
  refresh token that was stored.
\<close>

theorem Refresh_on_malformed_body:
  assumes "goauth2_c cl = Some client"
    and "client (Refresh_request (cl\<lparr>refreshToken := rt\<rparr>)) = Inr rawResponse"
    and "Body rawResponse = Readable Empty \<or> Body rawResponse = Readable NotJSON"
  shows "Refresh cl rt = Inr (cl\<lparr>refreshToken := rt\<rparr>, Some ErrSyntax)
     \<and> ProtocolError ErrSyntax
     \<and> (rt = refreshToken cl \<longrightarrow> Refresh cl rt = Inr (cl, Some ErrSyntax))"
proof -
  have r: "Refresh cl rt = Inr (cl\<lparr>refreshToken := rt\<rparr>, Some ErrSyntax)"
    using assms by (rule Refresh_on_bad_text)
  have same: "cl\<lparr>refreshToken := refreshToken cl\<rparr> = cl"
    by simp
  show ?thesis
    using r same by (auto simp: ProtocolError_def)
qed

theorem Refresh_on_malformed_body_witness:
  "Refresh (stub_client 200 (Readable Empty)) ''R1''
     = Inr (stub_client 200 (Readable Empty), Some ErrSyntax)
   \<and> Refresh (stub_client 200 (Readable NotJSON)) ''R1''
     = Inr (stub_client 200 (Readable NotJSON), Some ErrSyntax)"
proof -
  have same: "refreshToken (stub_client 200 b) = ''R1''" for b
    by (simp add: eval_stub)
  have c: "goauth2_c (stub_client 200 b) = Some (stub_provider 200 b)" for b
    by (simp add: eval_stub)
  have d: "stub_provider 200 b (Refresh_request ((stub_client 200 b)\<lparr>refreshToken := ''R1''\<rparr>))
             = Inr \<lparr>StatusCode = 200, Body = b\<rparr>" for b
    by (simp add: stub_provider_def)
  have "Refresh (stub_client 200 (Readable Empty)) ''R1''
     = Inr (stub_client 200 (Readable Empty), Some ErrSyntax)"
    using Refresh_on_malformed_body [OF c d, of "Readable Empty"] same by simp
  moreover have "Refresh (stub_client 200 (Readable NotJSON)) ''R1''
     = Inr (stub_client 200 (Readable NotJSON), Some ErrSyntax)"
    using Refresh_on_malformed_body [OF c d, of "Readable NotJSON"] same by simp
  ultimately show ?thesis by simp
qed

text \<open>
  The claim as it was written fails: with the stored refresh token \<open>R1\<close>, the
  argument \<open>R2\<close> and an empty body, \<^verbatim>\<open>Refresh\<close> fails and the stored refresh token is
  \<open>R2\<close>.
\<close>

theorem Refresh_failure_changes_refresh_token_counterexample:
  "token_state (stub_client 200 (Readable Empty)) = (''A1'', 0, ''R1'')
   \<and> map_sum id (apfst token_state) (Refresh (stub_client 200 (Readable Empty)) ''R2'')
       = Inr ((''A1'', 0, ''R2''), Some ErrSyntax)"
  by (simp add: eval_stub token_state_def Refresh_def ReadAll_def Unmarshal_def Let_def)

subsection \<open>Authorization\<close>

lemma Authorization_on_JSON:
  assumes "goauth2_c cl = Some client"
    and "client (Authorization_request cl code) = Inr rawResponse"
    and "Body rawResponse = Readable (JSONText j)"
    and "decode_AuthorizationResponse j zero_AuthorizationResponse = (response, e)"
  shows "Authorization cl code =
     (case e of
        Some err \<Rightarrow> Inr (cl, Some err)
      | None \<Rightarrow> Inr (cl\<lparr>accessToken := AccessToken response,
                        accessTokenExpire := ExpiresIn response,
                        refreshToken := RefreshToken response\<rparr>, None))"
  using assms by (cases e) (simp_all add: Authorization_def ReadAll_def Unmarshal_def)

lemma decode_spec_response:
  "decode_AuthorizationResponse
     (JObject [(''access_token'', JString a), (''refresh_token'', JString r), (''expires_in'', JNumber ''3600'')])
     zero_AuthorizationResponse
   = (\<lparr>AccessToken = a, IDToken = [], ExpiresIn = 3600, TokenType = [], RefreshToken = r\<rparr>, None)"
  by (simp add: decode_AuthorizationResponse_def decode_struct_def AuthorizationResponse_field_def
      decode_string_def decode_int64_def zero_AuthorizationResponse_def saveError_def matches_def
      to_upper_def is_lower_def ParseInt64_def digits_val_def is_digit_def Let_def)

text \<open>
  Claim C3.  Take any client, whatever its tokens, and a call of \<^verbatim>\<open>Authorization\<close>
  that the provider answers with a JSON text.  If the call succeeds, the three token
  fields are the \<^verbatim>\<open>access_token\<close>, \<^verbatim>\<open>expires_in\<close> and \<^verbatim>\<open>refresh_token\<close> decoded from
  the response.  With the response \<^verbatim>\<open>{"access_token":"A","refresh_token":"R","expires_in":3600}\<close>
  the call succeeds and stores \<open>A\<close>, \<open>3600\<close> and \<open>R\<close>; with \<^verbatim>\<open>"refresh_token":""\<close> it
  succeeds and \<^verbatim>\<open>GetRefreshToken\<close> returns the empty string.
\<close>

theorem Authorization_overwrites_all_three_tokens:
  assumes "goauth2_c cl = Some client"
    and "client (Authorization_request cl code) = Inr rawResponse"
    and "Body rawResponse = Readable (JSONText j)"
  shows "(\<forall>cl'. Authorization cl code = Inr (cl', None) \<longrightarrow>
            (\<exists>response. decode_AuthorizationResponse j zero_AuthorizationResponse = (response, None)
               \<and> cl' = cl\<lparr>accessToken := AccessToken response,
                           accessTokenExpire := ExpiresIn response,
                           refreshToken := RefreshToken response\<rparr>))
     \<and> (j = JObject [(''access_token'', JString ''A''), (''refresh_token'', JString ''R''),
                      (''expires_in'', JNumber ''3600'')] \<longrightarrow>
          Authorization cl code
            = Inr (cl\<lparr>accessToken := ''A'', accessTokenExpire := 3600, refreshToken := ''R''\<rparr>, None))
     \<and> (j = JObject [(''access_token'', JString a), (''refresh_token'', JString []),
                      (''expires_in'', JNumber ''3600'')] \<longrightarrow>
          (\<exists>cl'. Authorization cl code = Inr (cl', None)
             \<and> GetRefreshToken cl' = [] \<and> GetAccessToken cl' = a))"
proof -
  obtain response e where d: "decode_AuthorizationResponse j zero_AuthorizationResponse = (response, e)"
    by (cases "decode_AuthorizationResponse j zero_AuthorizationResponse")
  note run = Authorization_on_JSON [OF assms]
  have general: "\<forall>cl'. Authorization cl code = Inr (cl', None) \<longrightarrow>
            (\<exists>response. decode_AuthorizationResponse j zero_AuthorizationResponse = (response, None)
               \<and> cl' = cl\<lparr>accessToken := AccessToken response,
                           accessTokenExpire := ExpiresIn response,
                           refreshToken := RefreshToken response\<rparr>)"
    using run [OF d] d by (cases e) auto
  have first: "Authorization cl code
            = Inr (cl\<lparr>accessToken := ''A'', accessTokenExpire := 3600, refreshToken := ''R''\<rparr>, None)"
    if "j = JObject [(''access_token'', JString ''A''), (''refresh_token'', JString ''R''),
                      (''expires_in'', JNumber ''3600'')]"
    using run [of _ None] decode_spec_response [of "''A''" "''R''"] that by simp
  have second: "\<exists>cl'. Authorization cl code = Inr (cl', None)
             \<and> GetRefreshToken cl' = [] \<and> GetAccessToken cl' = a"
    if "j = JObject [(''access_token'', JString a), (''refresh_token'', JString []),
                      (''expires_in'', JNumber ''3600'')]"
    using run [of _ None] decode_spec_response [of a "[]"] that
    by (simp add: GetRefreshToken_def GetAccessToken_def)
  from general first second show ?thesis by blast
qed

theorem Authorization_overwrites_all_three_tokens_witness:
  "map_sum id (apfst token_state)
     (Authorization
        (stub_client 200 (Readable (JSONText (JObject
           [(''access_token'', JString ''A''), (''refresh_token'', JString ''R''),
            (''expires_in'', JNumber ''3600'')]))))
        ''4/code'')
   = Inr ((''A'', 3600, ''R''), None)"
proof -
  let ?j = "JObject [(''access_token'', JString ''A''), (''refresh_token'', JString ''R''),
                      (''expires_in'', JNumber ''3600'')]"
  let ?b = "Readable (JSONText ?j)"
  have c: "goauth2_c (stub_client 200 ?b) = Some (stub_provider 200 ?b)"
    by (simp add: eval_stub)
  have d: "stub_provider 200 ?b (Authorization_request (stub_client 200 ?b) ''4/code'')
             = Inr \<lparr>StatusCode = 200, Body = ?b\<rparr>"
    by (simp add: stub_provider_def)
  have b: "Body \<lparr>StatusCode = 200, Body = ?b\<rparr> = Readable (JSONText ?j)"
    by simp
  from Authorization_overwrites_all_three_tokens [OF c d b]
  have "Authorization (stub_client 200 ?b) ''4/code''
      = Inr ((stub_client 200 ?b)\<lparr>accessToken := ''A'', accessTokenExpire := 3600, refreshToken := ''R''\<rparr>, None)"
    by simp
  then show ?thesis
    by (simp add: token_state_def)
qed

subsection \<open>GetOAuthURI\<close>

lemma cut_first:
  "sep \<notin> set a \<Longrightarrow> cut sep (a @ sep # b) = (a, b)"
  by (induction a) (auto simp: cut_def)

lemma cut_none:
  "sep \<notin> set a \<Longrightarrow> cut sep a = (a, [])"
  by (induction a) (auto simp: cut_def)

lemma split_on_none:
  "sep \<notin> set a \<Longrightarrow> split_on sep a = [a]"
  by (induction a) auto

lemma split_on_first:
  "sep \<notin> set a \<Longrightarrow> split_on sep (a @ sep # b) = a # split_on sep b"
  by (induction a) auto


lemma GetOAuthURI_shape:
  "GetOAuthURI cl =
     ''https://accounts.google.com/o/oauth2/v2/auth?&client_id='' @ clientID cl
       @ ''&redirect_uri=urn:ietf:wg:oauth:2.0:oob&scope='' @ scope cl
       @ ''&access_type=offline&response_type=code''"
  by (simp add: GetOAuthURI_def oauthURI_def redirectURI_def accessType_def responseType_def)

lemma query_of_GetOAuthURI:
  assumes "CHR ''#'' \<notin> set (clientID cl)" "CHR ''#'' \<notin> set (scope cl)"
  shows "query_of (GetOAuthURI cl) =
     [] @ CHR ''&'' # (''client_id='' @ clientID cl) @ CHR ''&'' # ''redirect_uri=urn:ietf:wg:oauth:2.0:oob''
        @ CHR ''&'' # (''scope='' @ scope cl) @ CHR ''&'' # ''access_type=offline''
        @ CHR ''&'' # ''response_type=code''"
proof -
  have nofrag: "CHR ''#'' \<notin> set (GetOAuthURI cl)"
    using assms by (simp add: GetOAuthURI_shape)
  have "GetOAuthURI cl = ''https://accounts.google.com/o/oauth2/v2/auth'' @ CHR ''?'' #
     (''&client_id='' @ clientID cl @ ''&redirect_uri=urn:ietf:wg:oauth:2.0:oob&scope='' @ scope cl
       @ ''&access_type=offline&response_type=code'')"
    by (simp add: GetOAuthURI_shape)
  moreover have "CHR ''?'' \<notin> set ''https://accounts.google.com/o/oauth2/v2/auth''"
    by simp
  ultimately have "cut (CHR ''?'') (GetOAuthURI cl) =
     (''https://accounts.google.com/o/oauth2/v2/auth'',
      ''&client_id='' @ clientID cl @ ''&redirect_uri=urn:ietf:wg:oauth:2.0:oob&scope='' @ scope cl
       @ ''&access_type=offline&response_type=code'')"
    using cut_first by metis
  then show ?thesis
    using cut_none [OF nofrag] by (simp add: query_of_def)
qed

lemma query_params_GetOAuthURI:
  assumes "CHR ''&'' \<notin> set (clientID cl)" "CHR ''&'' \<notin> set (scope cl)"
    and "CHR ''#'' \<notin> set (clientID cl)" "CHR ''#'' \<notin> set (scope cl)"
  shows "query_params (GetOAuthURI cl) =
     [(''client_id'', clientID cl), (''redirect_uri'', ''urn:ietf:wg:oauth:2.0:oob''),
      (''scope'', scope cl), (''access_type'', ''offline''), (''response_type'', ''code'')]"
proof -
  have s1: "CHR ''&'' \<notin> set (''client_id='' @ clientID cl)" using assms by simp
  have s2: "CHR ''&'' \<notin> set ''redirect_uri=urn:ietf:wg:oauth:2.0:oob''" by simp
  have s3: "CHR ''&'' \<notin> set (''scope='' @ scope cl)" using assms by simp
  have s4: "CHR ''&'' \<notin> set ''access_type=offline''" by simp
  have s5: "CHR ''&'' \<notin> set ''response_type=code''" by simp
  have s0: "CHR ''&'' \<notin> set ([] :: string)" by simp
  have segs: "split_on (CHR ''&'') (query_of (GetOAuthURI cl)) =
     [[], ''client_id='' @ clientID cl, ''redirect_uri=urn:ietf:wg:oauth:2.0:oob'',
      ''scope='' @ scope cl, ''access_type=offline'', ''response_type=code'']"
    unfolding query_of_GetOAuthURI [OF assms(3,4)]
    unfolding split_on_first [OF s0] split_on_first [OF s1] split_on_first [OF s2]
      split_on_first [OF s3] split_on_first [OF s4] split_on_none [OF s5]
    by (rule refl)
  have c1: "cut (CHR ''='') (''client_id='' @ clientID cl) = (''client_id'', clientID cl)"
    using cut_first [of "CHR ''=''" "''client_id''" "clientID cl"] by simp
  have c3: "cut (CHR ''='') (''scope='' @ scope cl) = (''scope'', scope cl)"
    using cut_first [of "CHR ''=''" "''scope''" "scope cl"] by simp
  have c2: "cut (CHR ''='') ''redirect_uri=urn:ietf:wg:oauth:2.0:oob'' = (''redirect_uri'', ''urn:ietf:wg:oauth:2.0:oob'')"
    by (simp add: cut_def)
  have c4: "cut (CHR ''='') ''access_type=offline'' = (''access_type'', ''offline'')"
    by (simp add: cut_def)
  have c5: "cut (CHR ''='') ''response_type=code'' = (''response_type'', ''code'')"
    by (simp add: cut_def)
  show ?thesis
    unfolding query_params_def segs using c1 c2 c3 c4 c5 by simp
qed


lemma percent_encoded_fixed:
  "percent_encoded ''urn:ietf:wg:oauth:2.0:oob''" "percent_encoded ''offline''" "percent_encoded ''code''"
  by (simp_all add: value_char_def is_upper_def is_lower_def is_digit_def)

text \<open>
  Claim C4, as amended.  For every client id and scope, \<^verbatim>\<open>GetOAuthURI\<close> returns the
  authorization endpoint followed by
  \<^verbatim>\<open>?&client_id=<id>&redirect_uri=urn:ietf:wg:oauth:2.0:oob&scope=<scope>&access_type=offline&response_type=code\<close>
  with the client id and the scope inserted as they are: nothing is percent-encoded, and
  the fixed redirect URI, access type and response type stand verbatim whatever the
  client id and the scope are.  When neither the client id nor the scope holds an
  ampersand or a number sign, the query has exactly the five parameters
  \<^verbatim>\<open>client_id\<close>, \<^verbatim>\<open>redirect_uri\<close>, \<^verbatim>\<open>scope\<close>, \<^verbatim>\<open>access_type\<close> and
  \<^verbatim>\<open>response_type\<close> with these values, and all the values are percent-encoded
  exactly when the client id and the scope already are.
\<close>

theorem GetOAuthURI_inserts_values_verbatim:
  "GetOAuthURI cl =
     ''https://accounts.google.com/o/oauth2/v2/auth?&client_id='' @ clientID cl
       @ ''&redirect_uri=urn:ietf:wg:oauth:2.0:oob&scope='' @ scope cl
       @ ''&access_type=offline&response_type=code''
   \<and> (CHR ''&'' \<notin> set (clientID cl) \<and> CHR ''&'' \<notin> set (scope cl)
        \<and> CHR ''#'' \<notin> set (clientID cl) \<and> CHR ''#'' \<notin> set (scope cl) \<longrightarrow>
        query_params (GetOAuthURI cl) =
          [(''client_id'', clientID cl), (''redirect_uri'', ''urn:ietf:wg:oauth:2.0:oob''),
           (''scope'', scope cl), (''access_type'', ''offline''), (''response_type'', ''code'')]
        \<and> list_all (\<lambda>kv. percent_encoded (snd kv)) (query_params (GetOAuthURI cl))
            = (percent_encoded (clientID cl) \<and> percent_encoded (scope cl)))"
proof -
  have params: "query_params (GetOAuthURI cl) =
          [(''client_id'', clientID cl), (''redirect_uri'', ''urn:ietf:wg:oauth:2.0:oob''),
           (''scope'', scope cl), (''access_type'', ''offline''), (''response_type'', ''code'')]"
    if "CHR ''&'' \<notin> set (clientID cl)" "CHR ''&'' \<notin> set (scope cl)"
       "CHR ''#'' \<notin> set (clientID cl)" "CHR ''#'' \<notin> set (scope cl)"
    using that by (rule query_params_GetOAuthURI)
  have enc: "list_all (\<lambda>kv. percent_encoded (snd kv))
          [(''client_id'', clientID cl), (''redirect_uri'', ''urn:ietf:wg:oauth:2.0:oob''),
           (''scope'', scope cl), (''access_type'', ''offline''), (''response_type'', ''code'')]
        = (percent_encoded (clientID cl) \<and> percent_encoded (scope cl))"
    using percent_encoded_fixed by simp
  show ?thesis
    using GetOAuthURI_shape [of cl] params enc by simp
qed

theorem GetOAuthURI_inserts_values_verbatim_witness:
  "query_params (GetOAuthURI ((goauth2_NewClient ''my-app.example'' ''secret'')
      \<lparr>scope := ''https://www.googleapis.com/auth/photoslibrary.readonly''\<rparr>))
   = [(''client_id'', ''my-app.example''), (''redirect_uri'', ''urn:ietf:wg:oauth:2.0:oob''),
      (''scope'', ''https://www.googleapis.com/auth/photoslibrary.readonly''),
      (''access_type'', ''offline''), (''response_type'', ''code'')]"
proof -
  let ?cl = "(goauth2_NewClient ''my-app.example'' ''secret'')
      \<lparr>scope := ''https://www.googleapis.com/auth/photoslibrary.readonly''\<rparr>"
  have who: "clientID ?cl = ''my-app.example''"
    and what: "scope ?cl = ''https://www.googleapis.com/auth/photoslibrary.readonly''"
    by (simp_all add: goauth2_NewClient_def)
  have safe: "CHR ''&'' \<notin> set (clientID ?cl) \<and> CHR ''&'' \<notin> set (scope ?cl)
        \<and> CHR ''#'' \<notin> set (clientID ?cl) \<and> CHR ''#'' \<notin> set (scope ?cl)"
    unfolding who what by simp
  from GetOAuthURI_inserts_values_verbatim [of ?cl] safe
  have "query_params (GetOAuthURI ?cl) =
          [(''client_id'', clientID ?cl), (''redirect_uri'', ''urn:ietf:wg:oauth:2.0:oob''),
           (''scope'', scope ?cl), (''access_type'', ''offline''), (''response_type'', ''code'')]"
    by blast
  then show ?thesis
    unfolding who what .
qed

text \<open>
  The claim as it was written fails: for the client id \<open>my app\<close> and the two scopes
  \<open>a\<close> and \<open>b\<close> set by \<^verbatim>\<open>WithScopes\<close>, the query has six parameters, one of them
  named \<open>b\<close>, and the value of \<^verbatim>\<open>client_id\<close> holds a space that is not encoded.
\<close>

theorem GetOAuthURI_does_not_encode_counterexample:
  "map_sum id (\<lambda>cl. query_params (GetOAuthURI cl))
     (WithScopes (goauth2_NewClient ''my app'' ''secret'') [''a'', ''b''])
   = Inr [(''client_id'', ''my app''), (''redirect_uri'', ''urn:ietf:wg:oauth:2.0:oob''),
          (''scope'', ''a''), (''b'', []), (''access_type'', ''offline''), (''response_type'', ''code'')]
   \<and> \<not> percent_encoded ''my app''"
  by (simp add: WithScopes_def slice_to_def goauth2_NewClient_def GetOAuthURI_def oauthURI_def
      redirectURI_def accessType_def responseType_def query_params_def query_of_def cut_def
      value_char_def is_upper_def is_lower_def is_digit_def)

section \<open>The status code\<close>



























section \<open>Properties of package gphoto\<close>

subsection \<open>The request on the wire\<close>

declare digits_of.simps [simp del]

lemma coerce_from_ascii:
  "list_all (\<lambda>ch. (of_char ch :: nat) < 128) s \<Longrightarrow> coerce_from 0 s = s"
  by (induction s) (simp_all add: rune_len_def)

lemma encode_string_ascii:
  "list_all (\<lambda>ch. (of_char ch :: nat) < 128) s \<Longrightarrow> encode_string s = JString s"
  by (simp add: encode_string_def coerce_from_ascii)

lemma encode_string_instances:
  "encode_string [CHR 0xFF] = JString [CHR 0xEF, CHR 0xBF, CHR 0xBD]"
  "encode_string [CHR ''a'', CHR 0xC3, CHR ''b''] = JString [CHR ''a'', CHR 0xEF, CHR 0xBF, CHR 0xBD, CHR ''b'']"
  "encode_string [CHR 0xC3, CHR 0xA9] = JString [CHR 0xC3, CHR 0xA9]"
  "encode_string [CHR 0xE2, CHR 0x82, CHR 0xAC] = JString [CHR 0xE2, CHR 0x82, CHR 0xAC]"
  "encode_string [CHR 0xED, CHR 0xA0, CHR 0x80]
     = JString [CHR 0xEF, CHR 0xBF, CHR 0xBD, CHR 0xEF, CHR 0xBF, CHR 0xBD, CHR 0xEF, CHR 0xBF, CHR 0xBD]"
  "encode_string [CHR 0xF0, CHR 0x9F, CHR 0x90, CHR 0xB1] = JString [CHR 0xF0, CHR 0x9F, CHR 0x90, CHR 0xB1]"
  by code_simp+

lemma digits_val_snoc:
  "digits_val (ds @ [ch]) = 10 * digits_val ds + ((of_char ch :: int) - 48)"
  by (simp add: digits_val_def)

lemma digit_char:
  assumes "m < 10"
  shows "(of_char (char_of (48 + m :: nat)) :: int) = 48 + int m"
proof -
  have "(of_char (char_of (48 + m :: nat)) :: int) = int (of_char (char_of (48 + m :: nat)))"
    by (simp only: of_nat_of_char)
  also have "\<dots> = int ((48 + m) mod 256)"
    by (simp only: of_char_of)
  also have "\<dots> = 48 + int m"
    using assms by simp
  finally show ?thesis .
qed

lemma digits_of_value: "digits_val (digits_of n) = int n"
proof (induction n rule: digits_of.induct)
  case (1 n)
  show ?case
  proof (cases "n < 10")
    case True
    then show ?thesis
      by (subst digits_of.simps) (simp add: digits_val_def digit_char)
  next
    case False
    have "digits_val (digits_of n) = 10 * digits_val (digits_of (n div 10)) + int (n mod 10)"
      using False by (subst digits_of.simps) (simp add: digits_val_snoc digit_char)
    also have "\<dots> = 10 * int (n div 10) + int (n mod 10)"
      using 1 False by simp
    also have "\<dots> = int n"
      by (simp add: zdiv_int zmod_int)
    finally show ?thesis .
  qed
qed

lemma digits_of_digits: "list_all is_digit (digits_of n)"
proof (induction n rule: digits_of.induct)
  case (1 n)
  have last: "is_digit (char_of (48 + m))" if "m < 10" for m :: nat
    using that by (simp add: is_digit_def)
  show ?case
  proof (cases "n < 10")
    case True
    then show ?thesis
      by (subst digits_of.simps) (simp add: last)
  next
    case False
    then show ?thesis
      using 1 by (subst digits_of.simps) (simp add: last)
  qed
qed

lemma FormatInt_facts:
  "digits_val (FormatInt (int n)) = int n"
  "list_all is_digit (FormatInt (int n))"
  "FormatInt (- int (Suc n)) = CHR ''-'' # FormatInt (int (Suc n))"
  by (simp_all add: FormatInt_def digits_of_value digits_of_digits add.commute)

lemma FormatInt_instances:
  "FormatInt 0 = ''0''" "FormatInt 7 = ''7''" "FormatInt 12 = ''12''" "FormatInt 2020 = ''2020''" "FormatInt (- 12) = ''-12''"
  by code_simp+

lemma encode_Date_instance:
  "encode_Date \<lparr>Year = 2020, Month = 12, Day = 0\<rparr>
     = JObject [(''year'', JNumber ''2020''), (''month'', JNumber ''12'')]"
  by (simp add: encode_Date_def omitempty_def FormatInt_instances)

lemma canonical_keys:
  "CanonicalMIMEHeaderKey AuthorizationHeader = ''Authorization''"
  "CanonicalMIMEHeaderKey ContentTypeHeader = ''Content-Type''"
  by code_simp+

lemma rawRequest_wire:
  "rawRequest g mediaItemsSearchEndpoint buf =
     \<lparr>Method = ''POST'', URL = ''https://photoslibrary.googleapis.com/v1/mediaItems:search'',
      Header = [(''Authorization'', [''Bearer '' @ token g]), (''Content-Type'', [''application/json''])],
      Payload = JSONPayload buf\<rparr>"
  by (simp add: rawRequest_def mediaItemsSearchEndpoint_def baseURL_def Header_Set_def
      canonical_keys ContentTypeJSON_def AuthorizationParam_def)

lemma MediaItemsSearch_sends:
  "MediaItemsSearch pf (g\<lparr>gphoto_c := Some t\<rparr>) req =
     (case t (rawRequest g mediaItemsSearchEndpoint (encode_ptr encode_MediaItemsSearchRequest req)) of
        Inl err \<Rightarrow> Inr (Some zero_MediaItemsSearchResponse, Some err)
      | Inr rawResponse \<Rightarrow>
          (case ReadAll (Body rawResponse) of
             Inl err \<Rightarrow> Inr (Some zero_MediaItemsSearchResponse, Some err)
           | Inr data \<Rightarrow>
               Inr (apfst Some (Unmarshal (decode_MediaItemsSearchResponse pf) data
                                  zero_MediaItemsSearchResponse))))"
  by (simp add: MediaItemsSearch_def request_def Marshal_MediaItemsSearchRequest_def rawRequest_def
      split: sum.splits prod.splits)

lemma lookup_omitempty:
  "map_of (omitempty n e v @ rest) n = (if e then map_of rest n else Some v)"
  "map_of (omitempty n e v) n = (if e then None else Some v)"
  "n \<noteq> m \<Longrightarrow> map_of (omitempty m e v @ rest) n = map_of rest n"
  "n \<noteq> m \<Longrightarrow> map_of (omitempty m e v) n = None"
  by (simp_all add: omitempty_def)

lemma names_omitempty:
  "subseq (map fst rest) ys \<Longrightarrow> subseq (map fst (omitempty n e v @ rest)) (n # ys)"
  "subseq (map fst (omitempty n e v)) [n]"
  by (auto simp: omitempty_def)

lemma lookup_JObject: "lookup n (JObject kvs) = map_of kvs n"
  by (simp add: lookup_def members_def)

lemma member_names_JObject: "member_names (JObject kvs) = map fst kvs"
  by (simp add: member_names_def members_def)

lemma encode_ptr_as_member: "p \<noteq> None \<Longrightarrow> Some (encode_ptr enc p) = map_option enc p"
  by (cases p) (simp_all add: encode_ptr_def)

lemmas eval_members = lookup_JObject member_names_JObject lookup_omitempty names_omitempty

lemma encode_MediaItemsSearchRequest_members:
  "lookup ''pageSize'' (encode_MediaItemsSearchRequest r)
     = (if PageSize (PagerRequest r) = [] then None else Some (encode_string (PageSize (PagerRequest r))))"
  "lookup ''pageToken'' (encode_MediaItemsSearchRequest r)
     = (if PageToken (PagerRequest r) = [] then None else Some (encode_string (PageToken (PagerRequest r))))"
  "lookup ''albumId'' (encode_MediaItemsSearchRequest r)
     = (if AlbumID r = [] then None else Some (encode_string (AlbumID r)))"
  "lookup ''filters'' (encode_MediaItemsSearchRequest r) = map_option encode_Filters (Filters r)"
  "subseq (member_names (encode_MediaItemsSearchRequest r)) [''pageSize'', ''pageToken'', ''albumId'', ''filters'']"
  by (simp_all add: encode_MediaItemsSearchRequest_def eval_members encode_ptr_as_member del: map_of_append map_append)

lemma encode_Filters_members:
  "lookup ''dateFilter'' (encode_Filters f) = map_option encode_DateFilter (DateFilter f)"
  "lookup ''contentFilter'' (encode_Filters f) = map_option encode_ContentFilter (ContentFilter f)"
  "lookup ''mediaTypeFilter'' (encode_Filters f) = map_option encode_MediaTypeFilter (MediaTypeFilter f)"
  "lookup ''featureFilter'' (encode_Filters f) = map_option encode_FeatureFilter (FeatureFilter f)"
  "lookup ''includeArchivedMedia'' (encode_Filters f)
     = (if IncludeArchivedMedia f then Some (JBool True) else None)"
  "lookup ''excludeNonAppCreatedData'' (encode_Filters f)
     = (if ExcludeNonAppCreatedData f then Some (JBool True) else None)"
  "subseq (member_names (encode_Filters f))
     [''dateFilter'', ''contentFilter'', ''mediaTypeFilter'', ''featureFilter'',
      ''includeArchivedMedia'', ''excludeNonAppCreatedData'']"
  by (simp_all add: encode_Filters_def eval_members encode_ptr_as_member del: map_of_append map_append)

lemma encode_DateFilter_members:
  "lookup ''dates'' (encode_DateFilter d)
     = (if Dates d = [] then None else Some (JArray (map (encode_ptr encode_Date) (Dates d))))"
  "lookup ''ranges'' (encode_DateFilter d)
     = (if Ranges d = [] then None else Some (JArray (map (encode_ptr encode_DateRange) (Ranges d))))"
  "subseq (member_names (encode_DateFilter d)) [''dates'', ''ranges'']"
  by (simp_all add: encode_DateFilter_def eval_members del: map_of_append map_append)

lemma encode_Date_members:
  "lookup ''year'' (encode_Date d) = (if Year d = 0 then None else Some (JNumber (FormatInt (Year d))))"
  "lookup ''month'' (encode_Date d) = (if Month d = 0 then None else Some (JNumber (FormatInt (Month d))))"
  "lookup ''day'' (encode_Date d) = (if Day d = 0 then None else Some (JNumber (FormatInt (Day d))))"
  "subseq (member_names (encode_Date d)) [''year'', ''month'', ''day'']"
  by (simp_all add: encode_Date_def eval_members del: map_of_append map_append)

lemma encode_DateRange_members:
  "lookup ''startDate'' (encode_DateRange r) = map_option encode_Date (StartDate r)"
  "lookup ''endDate'' (encode_DateRange r) = map_option encode_Date (EndDate r)"
  "subseq (member_names (encode_DateRange r)) [''startDate'', ''endDate'']"
  by (simp_all add: encode_DateRange_def eval_members encode_ptr_as_member del: map_of_append map_append)

lemma encode_ContentFilter_members:
  "lookup ''includedContentCategories'' (encode_ContentFilter c)
     = (if IncludedContentCategories c = [] then None
        else Some (JArray (map encode_string (IncludedContentCategories c))))"
  "lookup ''excludedContentCategories'' (encode_ContentFilter c)
     = (if ExcludedContentCategories c = [] then None
        else Some (JArray (map encode_string (ExcludedContentCategories c))))"
  "subseq (member_names (encode_ContentFilter c)) [''includedContentCategories'', ''excludedContentCategories'']"
  by (simp_all add: encode_ContentFilter_def eval_members del: map_of_append map_append)

lemma encode_MediaTypeFilter_members:
  "lookup ''mediaTypes'' (encode_MediaTypeFilter m)
     = (if MediaTypes m = [] then None else Some (JArray (map encode_string (MediaTypes m))))"
  "subseq (member_names (encode_MediaTypeFilter m)) [''mediaTypes'']"
  by (simp_all add: encode_MediaTypeFilter_def eval_members del: map_of_append map_append)

lemma encode_FeatureFilter_members:
  "lookup ''includedFeatures'' (encode_FeatureFilter x)
     = (if IncludedFeatures x = [] then None else Some (JArray (map encode_string (IncludedFeatures x))))"
  "subseq (member_names (encode_FeatureFilter x)) [''includedFeatures'']"
  by (simp_all add: encode_FeatureFilter_def eval_members del: map_of_append map_append)

lemma encode_pets_request:
  "encode_ptr encode_MediaItemsSearchRequest (Some pets_request) =
     JObject [(''pageSize'', JString ''100''),
              (''filters'', JObject [(''contentFilter'',
                 JObject [(''includedContentCategories'', JArray [JString ''PETS''])])])]"
  by (simp add: pets_request_def encode_ptr_def encode_MediaItemsSearchRequest_def encode_Filters_def
      encode_ContentFilter_def omitempty_def ContentCategoryPets_def encode_string_ascii)

text \<open>
  Claim C6.  For every client and every search request, the request that
  \<^verbatim>\<open>MediaItemsSearch\<close> hands to the transport is a POST to
  \<^verbatim>\<open>https://photoslibrary.googleapis.com/v1/mediaItems:search\<close> with the headers
  \<^verbatim>\<open>Authorization: Bearer <token>\<close> and \<^verbatim>\<open>Content-Type: application/json\<close> and the
  JSON encoding of the search request as body, and what \<^verbatim>\<open>MediaItemsSearch\<close> returns
  is read off the answer to that request.  In the body every field of every struct
  stands under its lowerCamelCase name when it is set and is left out when it is empty
  (an empty string, a nil pointer, an empty list, false or 0), and no other member is
  written; a nil request is \<^verbatim>\<open>null\<close>.  A string is written as it is when it is
  ASCII, and with U+FFFD for every byte that is not valid UTF-8; an integer is written
  in decimal.  The request of \<^verbatim>\<open>main\<close> with one content category is written with
  \<^verbatim>\<open>pageSize\<close> and \<^verbatim>\<open>filters.contentFilter\<close> only.
\<close>

theorem MediaItemsSearch_wire_request:
  "(list_all (\<lambda>ch. (of_char ch :: nat) < 128) s \<longrightarrow> encode_string s = JString s)
   \<and> rawRequest g mediaItemsSearchEndpoint buf =
     \<lparr>Method = ''POST'', URL = ''https://photoslibrary.googleapis.com/v1/mediaItems:search'',
      Header = [(''Authorization'', [''Bearer '' @ token g]), (''Content-Type'', [''application/json''])],
      Payload = JSONPayload buf\<rparr>
   \<and> MediaItemsSearch pf (g\<lparr>gphoto_c := Some t\<rparr>) req =
     (case t \<lparr>Method = ''POST'', URL = ''https://photoslibrary.googleapis.com/v1/mediaItems:search'',
               Header = [(''Authorization'', [''Bearer '' @ token g]),
                         (''Content-Type'', [''application/json''])],
               Payload = JSONPayload (encode_ptr encode_MediaItemsSearchRequest req)\<rparr> of
        Inl err \<Rightarrow> Inr (Some zero_MediaItemsSearchResponse, Some err)
      | Inr rawResponse \<Rightarrow>
          (case ReadAll (Body rawResponse) of
             Inl err \<Rightarrow> Inr (Some zero_MediaItemsSearchResponse, Some err)
           | Inr data \<Rightarrow>
               Inr (apfst Some (Unmarshal (decode_MediaItemsSearchResponse pf) data
                                  zero_MediaItemsSearchResponse))))
   \<and> encode_ptr encode_MediaItemsSearchRequest None = JNull
   \<and> encode_ptr encode_MediaItemsSearchRequest (Some r) = encode_MediaItemsSearchRequest r
   \<and> lookup ''pageSize'' (encode_MediaItemsSearchRequest r)
       = (if PageSize (PagerRequest r) = [] then None else Some (encode_string (PageSize (PagerRequest r))))
   \<and> lookup ''pageToken'' (encode_MediaItemsSearchRequest r)
       = (if PageToken (PagerRequest r) = [] then None else Some (encode_string (PageToken (PagerRequest r))))
   \<and> lookup ''albumId'' (encode_MediaItemsSearchRequest r)
       = (if AlbumID r = [] then None else Some (encode_string (AlbumID r)))
   \<and> lookup ''filters'' (encode_MediaItemsSearchRequest r) = map_option encode_Filters (Filters r)
   \<and> subseq (member_names (encode_MediaItemsSearchRequest r))
        [''pageSize'', ''pageToken'', ''albumId'', ''filters'']
   \<and> lookup ''dateFilter'' (encode_Filters f) = map_option encode_DateFilter (DateFilter f)
   \<and> lookup ''contentFilter'' (encode_Filters f) = map_option encode_ContentFilter (ContentFilter f)
   \<and> lookup ''mediaTypeFilter'' (encode_Filters f) = map_option encode_MediaTypeFilter (MediaTypeFilter f)
   \<and> lookup ''featureFilter'' (encode_Filters f) = map_option encode_FeatureFilter (FeatureFilter f)
   \<and> lookup ''includeArchivedMedia'' (encode_Filters f)
       = (if IncludeArchivedMedia f then Some (JBool True) else None)
   \<and> lookup ''excludeNonAppCreatedData'' (encode_Filters f)
       = (if ExcludeNonAppCreatedData f then Some (JBool True) else None)
   \<and> subseq (member_names (encode_Filters f))
        [''dateFilter'', ''contentFilter'', ''mediaTypeFilter'', ''featureFilter'',
         ''includeArchivedMedia'', ''excludeNonAppCreatedData'']
   \<and> lookup ''dates'' (encode_DateFilter df)
       = (if Dates df = [] then None else Some (JArray (map (encode_ptr encode_Date) (Dates df))))
   \<and> lookup ''ranges'' (encode_DateFilter df)
       = (if Ranges df = [] then None else Some (JArray (map (encode_ptr encode_DateRange) (Ranges df))))
   \<and> subseq (member_names (encode_DateFilter df)) [''dates'', ''ranges'']
   \<and> lookup ''year'' (encode_Date d) = (if Year d = 0 then None else Some (JNumber (FormatInt (Year d))))
   \<and> lookup ''month'' (encode_Date d) = (if Month d = 0 then None else Some (JNumber (FormatInt (Month d))))
   \<and> lookup ''day'' (encode_Date d) = (if Day d = 0 then None else Some (JNumber (FormatInt (Day d))))
   \<and> subseq (member_names (encode_Date d)) [''year'', ''month'', ''day'']
   \<and> lookup ''startDate'' (encode_DateRange dr) = map_option encode_Date (StartDate dr)
   \<and> lookup ''endDate'' (encode_DateRange dr) = map_option encode_Date (EndDate dr)
   \<and> subseq (member_names (encode_DateRange dr)) [''startDate'', ''endDate'']
   \<and> lookup ''includedContentCategories'' (encode_ContentFilter c)
       = (if IncludedContentCategories c = [] then None
          else Some (JArray (map encode_string (IncludedContentCategories c))))
   \<and> lookup ''excludedContentCategories'' (encode_ContentFilter c)
       = (if ExcludedContentCategories c = [] then None
          else Some (JArray (map encode_string (ExcludedContentCategories c))))
   \<and> subseq (member_names (encode_ContentFilter c))
        [''includedContentCategories'', ''excludedContentCategories'']
   \<and> lookup ''mediaTypes'' (encode_MediaTypeFilter m)
       = (if MediaTypes m = [] then None else Some (JArray (map encode_string (MediaTypes m))))
   \<and> subseq (member_names (encode_MediaTypeFilter m)) [''mediaTypes'']
   \<and> lookup ''includedFeatures'' (encode_FeatureFilter x)
       = (if IncludedFeatures x = [] then None else Some (JArray (map encode_string (IncludedFeatures x))))
   \<and> subseq (member_names (encode_FeatureFilter x)) [''includedFeatures'']
   \<and> encode_ptr encode_MediaItemsSearchRequest (Some pets_request) =
       JObject [(''pageSize'', JString ''100''),
                (''filters'', JObject [(''contentFilter'',
                   JObject [(''includedContentCategories'', JArray [JString ''PETS''])])])]
   \<and> encode_string [CHR 0xFF] = JString [CHR 0xEF, CHR 0xBF, CHR 0xBD]
   \<and> encode_string [CHR ''a'', CHR 0xC3, CHR ''b'']
       = JString [CHR ''a'', CHR 0xEF, CHR 0xBF, CHR 0xBD, CHR ''b'']
   \<and> encode_string [CHR 0xC3, CHR 0xA9] = JString [CHR 0xC3, CHR 0xA9]
   \<and> encode_string [CHR 0xE2, CHR 0x82, CHR 0xAC] = JString [CHR 0xE2, CHR 0x82, CHR 0xAC]
   \<and> encode_string [CHR 0xED, CHR 0xA0, CHR 0x80]
       = JString [CHR 0xEF, CHR 0xBF, CHR 0xBD, CHR 0xEF, CHR 0xBF, CHR 0xBD, CHR 0xEF, CHR 0xBF, CHR 0xBD]
   \<and> encode_string [CHR 0xF0, CHR 0x9F, CHR 0x90, CHR 0xB1] = JString [CHR 0xF0, CHR 0x9F, CHR 0x90, CHR 0xB1]
   \<and> digits_val (FormatInt (int n)) = int n
   \<and> list_all is_digit (FormatInt (int n))
   \<and> FormatInt (- int (Suc n)) = CHR ''-'' # FormatInt (int (Suc n))
   \<and> FormatInt 0 = ''0'' \<and> FormatInt 7 = ''7'' \<and> FormatInt 12 = ''12''
   \<and> FormatInt 2020 = ''2020'' \<and> FormatInt (- 12) = ''-12''
   \<and> encode_Date \<lparr>Year = 2020, Month = 12, Day = 0\<rparr>
       = JObject [(''year'', JNumber ''2020''), (''month'', JNumber ''12'')]"
proof -
  have sends: "MediaItemsSearch pf (g\<lparr>gphoto_c := Some t\<rparr>) req =
     (case t \<lparr>Method = ''POST'', URL = ''https://photoslibrary.googleapis.com/v1/mediaItems:search'',
               Header = [(''Authorization'', [''Bearer '' @ token g]),
                         (''Content-Type'', [''application/json''])],
               Payload = JSONPayload (encode_ptr encode_MediaItemsSearchRequest req)\<rparr> of
        Inl err \<Rightarrow> Inr (Some zero_MediaItemsSearchResponse, Some err)
      | Inr rawResponse \<Rightarrow>
          (case ReadAll (Body rawResponse) of
             Inl err \<Rightarrow> Inr (Some zero_MediaItemsSearchResponse, Some err)
           | Inr data \<Rightarrow>
               Inr (apfst Some (Unmarshal (decode_MediaItemsSearchResponse pf) data
                                  zero_MediaItemsSearchResponse))))"
    by (simp only: MediaItemsSearch_sends rawRequest_wire)
  have ptr: "encode_ptr encode_MediaItemsSearchRequest None = JNull"
    "encode_ptr encode_MediaItemsSearchRequest (Some r) = encode_MediaItemsSearchRequest r"
    by (simp_all add: encode_ptr_def)
  have ascii: "list_all (\<lambda>ch. (of_char ch :: nat) < 128) s \<longrightarrow> encode_string s = JString s"
    by (simp add: encode_string_ascii)
  show ?thesis
    by (intro conjI)
      (rule ascii rawRequest_wire sends ptr encode_MediaItemsSearchRequest_members encode_Filters_members
         encode_DateFilter_members encode_Date_members encode_DateRange_members
         encode_ContentFilter_members encode_MediaTypeFilter_members encode_FeatureFilter_members
         encode_pets_request ascii encode_string_instances FormatInt_facts FormatInt_instances
         encode_Date_instance)+
qed

theorem MediaItemsSearch_wire_request_witness:
  "list_all (\<lambda>ch. (of_char ch :: nat) < 128) ''album-1''
   \<and> encode_string ''album-1'' = JString ''album-1''"
proof -
  have ascii: "list_all (\<lambda>ch. (of_char ch :: nat) < 128) ''album-1''"
    by simp
  from MediaItemsSearch_wire_request [where s = "''album-1''", THEN conjunct1]
  have "list_all (\<lambda>ch. (of_char ch :: nat) < 128) ''album-1'' \<longrightarrow> encode_string ''album-1'' = JString ''album-1''" .
  with ascii show ?thesis
    by simp
qed

subsection \<open>The decoded response\<close>

lemma folded_names:
  "foldName ''nextPageToken'' = ''NEXTPAGETOKEN''"
  "foldName ''mediaItems'' = ''MEDIAITEMS''"
  "foldName ''id'' = ''ID''"
  "foldName ''description'' = ''DESCRIPTION''"
  "foldName ''productUrl'' = ''PRODUCTURL''"
  "foldName ''baseUrl'' = ''BASEURL''"
  "foldName ''mimeType'' = ''MIMETYPE''"
  "foldName ''mediaMetadata'' = ''MEDIAMETADATA''"
  "foldName ''contributorInfo'' = ''CONTRIBUTORINFO''"
  "foldName ''filename'' = ''FILENAME''"
  "foldName ''creationTime'' = ''CREATIONTIME''"
  "foldName ''width'' = ''WIDTH''"
  "foldName ''height'' = ''HEIGHT''"
  "foldName ''photo'' = ''PHOTO''"
  "foldName ''video'' = ''VIDEO''"
  "foldName ''cameraMake'' = ''CAMERAMAKE''"
  "foldName ''cameraModel'' = ''CAMERAMODEL''"
  "foldName ''focalLength'' = ''FOCALLENGTH''"
  "foldName ''apertureFNumber'' = ''APERTUREFNUMBER''"
  "foldName ''isoEquivalent'' = ''ISOEQUIVALENT''"
  "foldName ''exposureTime'' = ''EXPOSURETIME''"
  "foldName ''fps'' = ''FPS''"
  "foldName ''status'' = ''STATUS''"
  "foldName ''profilePictureBaseUrl'' = ''PROFILEPICTUREBASEURL''"
  "foldName ''displayName'' = ''DISPLAYNAME''"
  by code_simp+

lemmas eval_field = matches_def folded_names

lemma decode_members_field:
  assumes frame: "\<And>k v s. \<not> matches n k \<Longrightarrow> get (fst (field k v s)) = get s"
    and hit: "\<And>k v s. matches n k \<Longrightarrow> get (fst (field k v s)) = fst (d v (get s))"
  shows "get (fst (decode_members field kvs s))
     = fold (\<lambda>v x. fst (d v x)) (map snd (filter (\<lambda>kv. matches n (fst kv)) kvs)) (get s)"
proof (induction kvs arbitrary: s)
  case Nil
  show ?case by simp
next
  case (Cons kv kvs)
  obtain s1 e1 where f: "field (fst kv) (snd kv) s = (s1, e1)"
    by (cases "field (fst kv) (snd kv) s")
  obtain s2 e2 where r: "decode_members field kvs s1 = (s2, e2)"
    by (cases "decode_members field kvs s1")
  have rest: "get s2 = fold (\<lambda>v x. fst (d v x)) (map snd (filter (\<lambda>kv. matches n (fst kv)) kvs)) (get s1)"
    using Cons.IH [of s1] r by simp
  show ?case
  proof (cases "matches n (fst kv)")
    case True
    then have "get s1 = fst (d (snd kv) (get s))"
      using hit [of "fst kv" "snd kv" s] f by simp
    with True rest f r show ?thesis by simp
  next
    case False
    then have "get s1 = get s"
      using frame [of "fst kv" "snd kv" s] f by simp
    with False rest f r show ?thesis by simp
  qed
qed

lemma decode_struct_field:
  assumes frame: "\<And>k v s. \<not> matches n k \<Longrightarrow> get (fst (field k v s)) = get s"
    and hit: "\<And>k v s. matches n k \<Longrightarrow> get (fst (field k v s)) = fst (d v (get s))"
  shows "get (fst (decode_struct field j s)) = field_value d n j (get s)"
proof (cases j)
  case (JObject kvs)
  then show ?thesis
    using decode_members_field [of n get field d kvs s, OF frame hit]
    by (simp add: decode_struct_def field_value_def members_for_def members_def)
qed (simp_all add: decode_struct_def field_value_def members_for_def members_def)

lemma field_value_absent:
  "\<not> has_member n j \<Longrightarrow> field_value d n j init = init"
  by (simp add: field_value_def members_for_def has_member_def list_ex_iff filter_empty_conv)

lemma field_value_single:
  "members_for n j = [v] \<Longrightarrow> field_value d n j init = fst (d v init)"
  by (simp add: field_value_def)

lemma decode_elems_fresh:
  "fst (decode_elems dec zero ms []) = map (\<lambda>m. fst (dec m zero)) ms"
  by (induction ms) (auto split: prod.splits)

lemma decode_slice_fresh:
  "fst (decode_slice dec zero (JArray ms) (Slice [] [])) = Slice (map (\<lambda>m. fst (dec m zero)) ms) []"
  using decode_elems_fresh [of dec zero ms]
  by (cases ms) (simp_all add: decode_slice_def split: prod.splits)

lemma decode_ptr_value:
  "fst (decode_ptr dec zero m old)
     = (if m = JNull then None else Some (fst (dec m (case old of None \<Rightarrow> zero | Some v \<Rightarrow> v))))"
  by (cases m) (simp_all add: decode_ptr_def)

lemma MediaItemsSearchResponse_hits:
  "matches ''nextPageToken'' k \<Longrightarrow>
     NextPageToken (PagerResponse (fst (MediaItemsSearchResponse_field pf k v s)))
       = fst (decode_string v (NextPageToken (PagerResponse s)))"
  "matches ''mediaItems'' k \<Longrightarrow>
     MediaItems (fst (MediaItemsSearchResponse_field pf k v s))
       = fst (decode_slice (decode_MediaItem_ptr pf) None v (MediaItems s))"
  by (simp_all add: MediaItemsSearchResponse_field_def eval_field del: foldName.simps)

lemma MediaItemsSearchResponse_frames:
  "\<not> matches ''nextPageToken'' k \<Longrightarrow>
     NextPageToken (PagerResponse (fst (MediaItemsSearchResponse_field pf k v s)))
       = NextPageToken (PagerResponse s)"
  "\<not> matches ''mediaItems'' k \<Longrightarrow>
     MediaItems (fst (MediaItemsSearchResponse_field pf k v s)) = MediaItems s"
  by (simp_all add: MediaItemsSearchResponse_field_def)

lemma MediaItem_frames:
  "\<not> matches ''id'' k \<Longrightarrow> ID (fst (MediaItem_field pf k v s)) = ID s"
  "\<not> matches ''description'' k \<Longrightarrow> Description (fst (MediaItem_field pf k v s)) = Description s"
  "\<not> matches ''productUrl'' k \<Longrightarrow> ProductURL (fst (MediaItem_field pf k v s)) = ProductURL s"
  "\<not> matches ''baseUrl'' k \<Longrightarrow> BaseURL (fst (MediaItem_field pf k v s)) = BaseURL s"
  "\<not> matches ''mimeType'' k \<Longrightarrow> MimeType (fst (MediaItem_field pf k v s)) = MimeType s"
  "\<not> matches ''mediaMetadata'' k \<Longrightarrow> MediaMetadata (fst (MediaItem_field pf k v s)) = MediaMetadata s"
  "\<not> matches ''contributorInfo'' k \<Longrightarrow> ContributorInfo (fst (MediaItem_field pf k v s)) = ContributorInfo s"
  "\<not> matches ''filename'' k \<Longrightarrow> Filename (fst (MediaItem_field pf k v s)) = Filename s"
  by (simp_all add: MediaItem_field_def)

lemma MediaItem_hits:
  "matches ''id'' k \<Longrightarrow> ID (fst (MediaItem_field pf k v s)) = fst (decode_string v (ID s))"
  "matches ''description'' k \<Longrightarrow>
     Description (fst (MediaItem_field pf k v s)) = fst (decode_string v (Description s))"
  "matches ''productUrl'' k \<Longrightarrow>
     ProductURL (fst (MediaItem_field pf k v s)) = fst (decode_string v (ProductURL s))"
  "matches ''baseUrl'' k \<Longrightarrow> BaseURL (fst (MediaItem_field pf k v s)) = fst (decode_string v (BaseURL s))"
  "matches ''mimeType'' k \<Longrightarrow> MimeType (fst (MediaItem_field pf k v s)) = fst (decode_string v (MimeType s))"
  "matches ''mediaMetadata'' k \<Longrightarrow>
     MediaMetadata (fst (MediaItem_field pf k v s))
       = fst (decode_ptr (decode_struct (MediaMetadata_field pf)) zero_MediaMetadata v (MediaMetadata s))"
  "matches ''contributorInfo'' k \<Longrightarrow>
     ContributorInfo (fst (MediaItem_field pf k v s))
       = fst (decode_ptr (decode_struct ContributorInfo_field) zero_ContributorInfo v (ContributorInfo s))"
  "matches ''filename'' k \<Longrightarrow> Filename (fst (MediaItem_field pf k v s)) = fst (decode_string v (Filename s))"
  by (simp_all add: MediaItem_field_def eval_field del: foldName.simps)

lemma MediaMetadata_frames:
  "\<not> matches ''creationTime'' k \<Longrightarrow> CreationTime (fst (MediaMetadata_field pf k v s)) = CreationTime s"
  "\<not> matches ''width'' k \<Longrightarrow> Width (fst (MediaMetadata_field pf k v s)) = Width s"
  "\<not> matches ''height'' k \<Longrightarrow> Height (fst (MediaMetadata_field pf k v s)) = Height s"
  "\<not> matches ''photo'' k \<Longrightarrow> Photo (fst (MediaMetadata_field pf k v s)) = Photo s"
  "\<not> matches ''video'' k \<Longrightarrow> Video (fst (MediaMetadata_field pf k v s)) = Video s"
  by (simp_all add: MediaMetadata_field_def)

lemma MediaMetadata_hits:
  "matches ''creationTime'' k \<Longrightarrow>
     CreationTime (fst (MediaMetadata_field pf k v s)) = fst (decode_string v (CreationTime s))"
  "matches ''width'' k \<Longrightarrow> Width (fst (MediaMetadata_field pf k v s)) = fst (decode_string v (Width s))"
  "matches ''height'' k \<Longrightarrow> Height (fst (MediaMetadata_field pf k v s)) = fst (decode_string v (Height s))"
  "matches ''photo'' k \<Longrightarrow>
     Photo (fst (MediaMetadata_field pf k v s))
       = fst (decode_ptr (decode_struct (Photo_field pf)) zero_Photo v (Photo s))"
  "matches ''video'' k \<Longrightarrow>
     Video (fst (MediaMetadata_field pf k v s))
       = fst (decode_ptr (decode_struct (Video_field pf)) zero_Video v (Video s))"
  by (simp_all add: MediaMetadata_field_def eval_field del: foldName.simps)

lemma Photo_frames:
  "\<not> matches ''cameraMake'' k \<Longrightarrow> CameraMake (fst (Photo_field pf k v s)) = CameraMake s"
  "\<not> matches ''cameraModel'' k \<Longrightarrow> CameraModel (fst (Photo_field pf k v s)) = CameraModel s"
  "\<not> matches ''focalLength'' k \<Longrightarrow> FocalLength (fst (Photo_field pf k v s)) = FocalLength s"
  "\<not> matches ''apertureFNumber'' k \<Longrightarrow> ApertureFNumber (fst (Photo_field pf k v s)) = ApertureFNumber s"
  "\<not> matches ''isoEquivalent'' k \<Longrightarrow> IsoEquivalent (fst (Photo_field pf k v s)) = IsoEquivalent s"
  "\<not> matches ''exposureTime'' k \<Longrightarrow> ExposureTime (fst (Photo_field pf k v s)) = ExposureTime s"
  by (simp_all add: Photo_field_def)

lemma Photo_hits:
  "matches ''cameraMake'' k \<Longrightarrow> CameraMake (fst (Photo_field pf k v s)) = fst (decode_string v (CameraMake s))"
  "matches ''cameraModel'' k \<Longrightarrow> CameraModel (fst (Photo_field pf k v s)) = fst (decode_string v (CameraModel s))"
  "matches ''focalLength'' k \<Longrightarrow>
     FocalLength (fst (Photo_field pf k v s)) = fst (decode_float64 pf v (FocalLength s))"
  "matches ''apertureFNumber'' k \<Longrightarrow>
     ApertureFNumber (fst (Photo_field pf k v s)) = fst (decode_float64 pf v (ApertureFNumber s))"
  "matches ''isoEquivalent'' k \<Longrightarrow>
     IsoEquivalent (fst (Photo_field pf k v s)) = fst (decode_float64 pf v (IsoEquivalent s))"
  "matches ''exposureTime'' k \<Longrightarrow>
     ExposureTime (fst (Photo_field pf k v s)) = fst (decode_string v (ExposureTime s))"
  by (simp_all add: Photo_field_def eval_field del: foldName.simps)

lemma Video_frames:
  "\<not> matches ''cameraMake'' k \<Longrightarrow> Video_CameraMake (fst (Video_field pf k v s)) = Video_CameraMake s"
  "\<not> matches ''cameraModel'' k \<Longrightarrow> Video_CameraModel (fst (Video_field pf k v s)) = Video_CameraModel s"
  "\<not> matches ''fps'' k \<Longrightarrow> Fps (fst (Video_field pf k v s)) = Fps s"
  "\<not> matches ''status'' k \<Longrightarrow> Status (fst (Video_field pf k v s)) = Status s"
  by (simp_all add: Video_field_def)

lemma Video_hits:
  "matches ''cameraMake'' k \<Longrightarrow>
     Video_CameraMake (fst (Video_field pf k v s)) = fst (decode_string v (Video_CameraMake s))"
  "matches ''cameraModel'' k \<Longrightarrow>
     Video_CameraModel (fst (Video_field pf k v s)) = fst (decode_string v (Video_CameraModel s))"
  "matches ''fps'' k \<Longrightarrow> Fps (fst (Video_field pf k v s)) = fst (decode_float64 pf v (Fps s))"
  "matches ''status'' k \<Longrightarrow> Status (fst (Video_field pf k v s)) = fst (decode_string v (Status s))"
  by (simp_all add: Video_field_def eval_field del: foldName.simps)

lemma ContributorInfo_frames:
  "\<not> matches ''profilePictureBaseUrl'' k \<Longrightarrow>
     ProfilePictureBaseURL (fst (ContributorInfo_field k v s)) = ProfilePictureBaseURL s"
  "\<not> matches ''displayName'' k \<Longrightarrow> DisplayName (fst (ContributorInfo_field k v s)) = DisplayName s"
  by (simp_all add: ContributorInfo_field_def)

lemma ContributorInfo_hits:
  "matches ''profilePictureBaseUrl'' k \<Longrightarrow>
     ProfilePictureBaseURL (fst (ContributorInfo_field k v s))
       = fst (decode_string v (ProfilePictureBaseURL s))"
  "matches ''displayName'' k \<Longrightarrow>
     DisplayName (fst (ContributorInfo_field k v s)) = fst (decode_string v (DisplayName s))"
  by (simp_all add: ContributorInfo_field_def eval_field del: foldName.simps)

lemma MediaItem_fields:
  fixes pf :: "string \<Rightarrow> 'f::zero option"
  shows "ID (fst (decode_struct (MediaItem_field pf) m item))
     = field_value decode_string ''id'' m (ID item)"
    and "Description (fst (decode_struct (MediaItem_field pf) m item))
     = field_value decode_string ''description'' m (Description item)"
    and "ProductURL (fst (decode_struct (MediaItem_field pf) m item))
     = field_value decode_string ''productUrl'' m (ProductURL item)"
    and "BaseURL (fst (decode_struct (MediaItem_field pf) m item))
     = field_value decode_string ''baseUrl'' m (BaseURL item)"
    and "MimeType (fst (decode_struct (MediaItem_field pf) m item))
     = field_value decode_string ''mimeType'' m (MimeType item)"
    and "MediaMetadata (fst (decode_struct (MediaItem_field pf) m item))
     = field_value (decode_ptr (decode_struct (MediaMetadata_field pf)) zero_MediaMetadata) ''mediaMetadata'' m (MediaMetadata item)"
    and "ContributorInfo (fst (decode_struct (MediaItem_field pf) m item))
     = field_value (decode_ptr (decode_struct ContributorInfo_field) zero_ContributorInfo) ''contributorInfo'' m (ContributorInfo item)"
    and "Filename (fst (decode_struct (MediaItem_field pf) m item))
     = field_value decode_string ''filename'' m (Filename item)"
  using decode_struct_field [of "''id''" ID "MediaItem_field pf" "decode_string" m item]
        decode_struct_field [of "''description''" Description "MediaItem_field pf" "decode_string" m item]
        decode_struct_field [of "''productUrl''" ProductURL "MediaItem_field pf" "decode_string" m item]
        decode_struct_field [of "''baseUrl''" BaseURL "MediaItem_field pf" "decode_string" m item]
        decode_struct_field [of "''mimeType''" MimeType "MediaItem_field pf" "decode_string" m item]
        decode_struct_field [of "''mediaMetadata''" MediaMetadata "MediaItem_field pf" "decode_ptr (decode_struct (MediaMetadata_field pf)) zero_MediaMetadata" m item]
        decode_struct_field [of "''contributorInfo''" ContributorInfo "MediaItem_field pf" "decode_ptr (decode_struct ContributorInfo_field) zero_ContributorInfo" m item]
        decode_struct_field [of "''filename''" Filename "MediaItem_field pf" "decode_string" m item]
  by (simp_all add: MediaItem_frames MediaItem_hits)

lemma MediaMetadata_fields:
  fixes pf :: "string \<Rightarrow> 'f::zero option"
  shows "CreationTime (fst (decode_struct (MediaMetadata_field pf) mm meta))
     = field_value decode_string ''creationTime'' mm (CreationTime meta)"
    and "Width (fst (decode_struct (MediaMetadata_field pf) mm meta))
     = field_value decode_string ''width'' mm (Width meta)"
    and "Height (fst (decode_struct (MediaMetadata_field pf) mm meta))
     = field_value decode_string ''height'' mm (Height meta)"
    and "Photo (fst (decode_struct (MediaMetadata_field pf) mm meta))
     = field_value (decode_ptr (decode_struct (Photo_field pf)) zero_Photo) ''photo'' mm (Photo meta)"
    and "Video (fst (decode_struct (MediaMetadata_field pf) mm meta))
     = field_value (decode_ptr (decode_struct (Video_field pf)) zero_Video) ''video'' mm (Video meta)"
  using decode_struct_field [of "''creationTime''" CreationTime "MediaMetadata_field pf" "decode_string" mm meta]
        decode_struct_field [of "''width''" Width "MediaMetadata_field pf" "decode_string" mm meta]
        decode_struct_field [of "''height''" Height "MediaMetadata_field pf" "decode_string" mm meta]
        decode_struct_field [of "''photo''" Photo "MediaMetadata_field pf" "decode_ptr (decode_struct (Photo_field pf)) zero_Photo" mm meta]
        decode_struct_field [of "''video''" Video "MediaMetadata_field pf" "decode_ptr (decode_struct (Video_field pf)) zero_Video" mm meta]
  by (simp_all add: MediaMetadata_frames MediaMetadata_hits)

lemma Photo_fields:
  fixes pf :: "string \<Rightarrow> 'f::zero option"
  shows "CameraMake (fst (decode_struct (Photo_field pf) pm photo))
     = field_value decode_string ''cameraMake'' pm (CameraMake photo)"
    and "CameraModel (fst (decode_struct (Photo_field pf) pm photo))
     = field_value decode_string ''cameraModel'' pm (CameraModel photo)"
    and "FocalLength (fst (decode_struct (Photo_field pf) pm photo))
     = field_value (decode_float64 pf) ''focalLength'' pm (FocalLength photo)"
    and "ApertureFNumber (fst (decode_struct (Photo_field pf) pm photo))
     = field_value (decode_float64 pf) ''apertureFNumber'' pm (ApertureFNumber photo)"
    and "IsoEquivalent (fst (decode_struct (Photo_field pf) pm photo))
     = field_value (decode_float64 pf) ''isoEquivalent'' pm (IsoEquivalent photo)"
    and "ExposureTime (fst (decode_struct (Photo_field pf) pm photo))
     = field_value decode_string ''exposureTime'' pm (ExposureTime photo)"
  using decode_struct_field [of "''cameraMake''" CameraMake "Photo_field pf" "decode_string" pm photo]
        decode_struct_field [of "''cameraModel''" CameraModel "Photo_field pf" "decode_string" pm photo]
        decode_struct_field [of "''focalLength''" FocalLength "Photo_field pf" "decode_float64 pf" pm photo]
        decode_struct_field [of "''apertureFNumber''" ApertureFNumber "Photo_field pf" "decode_float64 pf" pm photo]
        decode_struct_field [of "''isoEquivalent''" IsoEquivalent "Photo_field pf" "decode_float64 pf" pm photo]
        decode_struct_field [of "''exposureTime''" ExposureTime "Photo_field pf" "decode_string" pm photo]
  by (simp_all add: Photo_frames Photo_hits)

lemma Video_fields:
  fixes pf :: "string \<Rightarrow> 'f::zero option"
  shows "Video_CameraMake (fst (decode_struct (Video_field pf) vm video))
     = field_value decode_string ''cameraMake'' vm (Video_CameraMake video)"
    and "Video_CameraModel (fst (decode_struct (Video_field pf) vm video))
     = field_value decode_string ''cameraModel'' vm (Video_CameraModel video)"
    and "Fps (fst (decode_struct (Video_field pf) vm video))
     = field_value (decode_float64 pf) ''fps'' vm (Fps video)"
    and "Status (fst (decode_struct (Video_field pf) vm video))
     = field_value decode_string ''status'' vm (Status video)"
  using decode_struct_field [of "''cameraMake''" Video_CameraMake "Video_field pf" "decode_string" vm video]
        decode_struct_field [of "''cameraModel''" Video_CameraModel "Video_field pf" "decode_string" vm video]
        decode_struct_field [of "''fps''" Fps "Video_field pf" "decode_float64 pf" vm video]
        decode_struct_field [of "''status''" Status "Video_field pf" "decode_string" vm video]
  by (simp_all add: Video_frames Video_hits)

lemma ContributorInfo_fields:
  fixes pf :: "string \<Rightarrow> 'f::zero option"
  shows "ProfilePictureBaseURL (fst (decode_struct (ContributorInfo_field) cm contributor))
     = field_value decode_string ''profilePictureBaseUrl'' cm (ProfilePictureBaseURL contributor)"
    and "DisplayName (fst (decode_struct (ContributorInfo_field) cm contributor))
     = field_value decode_string ''displayName'' cm (DisplayName contributor)"
  using decode_struct_field [of "''profilePictureBaseUrl''" ProfilePictureBaseURL "ContributorInfo_field" "decode_string" cm contributor]
        decode_struct_field [of "''displayName''" DisplayName "ContributorInfo_field" "decode_string" cm contributor]
  by (simp_all add: ContributorInfo_frames ContributorInfo_hits)

lemma MediaItemsSearchResponse_fields:
  fixes pf :: "string \<Rightarrow> 'f::zero option"
  shows "NextPageToken (PagerResponse (fst (decode_MediaItemsSearchResponse pf j s)))
     = field_value decode_string ''nextPageToken'' j (NextPageToken (PagerResponse s))"
    and "MediaItems (fst (decode_MediaItemsSearchResponse pf j s))
     = field_value (decode_slice (decode_MediaItem_ptr pf) None) ''mediaItems'' j (MediaItems s)"
  using decode_struct_field [of "''nextPageToken''" "\<lambda>s. NextPageToken (PagerResponse s)"
      "MediaItemsSearchResponse_field pf" decode_string j s]
    decode_struct_field [of "''mediaItems''" MediaItems
      "MediaItemsSearchResponse_field pf" "decode_slice (decode_MediaItem_ptr pf) None" j s]
  by (simp_all add: MediaItemsSearchResponse_frames MediaItemsSearchResponse_hits
      decode_MediaItemsSearchResponse_def)

lemma MediaItemsSearch_on_JSON:
  assumes "t (rawRequest g mediaItemsSearchEndpoint (encode_ptr encode_MediaItemsSearchRequest req))
             = Inr rawResponse"
    and "Body rawResponse = Readable (JSONText j)"
  shows "MediaItemsSearch pf (g\<lparr>gphoto_c := Some t\<rparr>) req
     = Inr (Some (fst (decode_MediaItemsSearchResponse pf j zero_MediaItemsSearchResponse)),
            snd (decode_MediaItemsSearchResponse pf j zero_MediaItemsSearchResponse))"
  using assms by (simp add: MediaItemsSearch_sends ReadAll_def Unmarshal_def apfst_def map_prod_def split: prod.splits)

lemma decode_item_with_id:
  "decode_MediaItem_ptr pf (JObject [(''id'', JString a)]) None = (Some (zero_MediaItem\<lparr>ID := a\<rparr>), None)"
  by (simp add: decode_MediaItem_ptr_def decode_ptr_def decode_struct_def MediaItem_field_def
      decode_string_def saveError_def eval_field del: foldName.simps)

lemma decode_token_and_two_ids:
  "decode_MediaItemsSearchResponse pf
          (JObject [(''nextPageToken'', JString tok),
                    (''mediaItems'', JArray [JObject [(''id'', JString a)], JObject [(''id'', JString b)]])])
          zero_MediaItemsSearchResponse
   = (\<lparr>PagerResponse = \<lparr>NextPageToken = tok\<rparr>,
       MediaItems = Slice [Some (zero_MediaItem\<lparr>ID := a\<rparr>), Some (zero_MediaItem\<lparr>ID := b\<rparr>)] []\<rparr>, None)"
  by (simp add: decode_MediaItemsSearchResponse_def decode_struct_def MediaItemsSearchResponse_field_def
      decode_string_def decode_slice_def zero_MediaItemsSearchResponse_def saveError_def eval_field
      decode_item_with_id del: foldName.simps)

lemma decode_full_item:
  fixes pf :: "string \<Rightarrow> 'f::zero option"
  shows "fst (decode_MediaItem_ptr pf
         (JObject
          [(''id'', JString ''i''), (''description'', JString ''d''), (''productUrl'', JString ''p''),
           (''baseUrl'', JString ''b''), (''mimeType'', JString ''image/jpeg''),
           (''mediaMetadata'', JObject
              [(''creationTime'', JString ''t''), (''width'', JString ''640''), (''height'', JString ''480''),
               (''photo'', JObject
                  [(''cameraMake'', JString ''mk''), (''cameraModel'', JString ''md''),
                   (''focalLength'', JNumber ''4.2''), (''apertureFNumber'', JNumber ''1.8''),
                   (''isoEquivalent'', JNumber ''100''), (''exposureTime'', JString ''0.01s'')]),
               (''video'', JObject
                  [(''cameraMake'', JString ''vk''), (''cameraModel'', JString ''vd''),
                   (''fps'', JNumber ''30''), (''status'', JString ''READY'')])]),
           (''contributorInfo'', JObject
              [(''profilePictureBaseUrl'', JString ''u''), (''displayName'', JString ''n'')]),
           (''filename'', JString ''f.jpg'')])
         None)
       = Some \<lparr>ID = ''i'', Description = ''d'', ProductURL = ''p'', BaseURL = ''b'',
              MimeType = ''image/jpeg'',
              MediaMetadata = Some
                \<lparr>CreationTime = ''t'', Width = ''640'', Height = ''480'',
                 Photo = Some
                   \<lparr>CameraMake = ''mk'', CameraModel = ''md'',
                    FocalLength = (case pf ''4.2'' of None \<Rightarrow> 0 | Some x \<Rightarrow> x),
                    ApertureFNumber = (case pf ''1.8'' of None \<Rightarrow> 0 | Some x \<Rightarrow> x),
                    IsoEquivalent = (case pf ''100'' of None \<Rightarrow> 0 | Some x \<Rightarrow> x),
                    ExposureTime = ''0.01s''\<rparr>,
                 Video = Some
                   \<lparr>Video_CameraMake = ''vk'', Video_CameraModel = ''vd'',
                    Fps = (case pf ''30'' of None \<Rightarrow> 0 | Some x \<Rightarrow> x), Status = ''READY''\<rparr>\<rparr>,
              ContributorInfo = Some \<lparr>ProfilePictureBaseURL = ''u'', DisplayName = ''n''\<rparr>,
              Filename = ''f.jpg''\<rparr>"
  by (simp add: decode_MediaItem_ptr_def decode_ptr_def decode_struct_def MediaItem_field_def
      MediaMetadata_field_def Photo_field_def Video_field_def ContributorInfo_field_def
      decode_string_def decode_float64_def saveError_def eval_field zero_MediaItem_def
      zero_MediaMetadata_def zero_Photo_def zero_Video_def zero_ContributorInfo_def
      split: option.splits prod.splits del: foldName.simps)

lemma decode_primitives:
  "fst (decode_string (JString str) old_str) = str"
  "fst (decode_string JNull old_str) = old_str"
  "fst (decode_float64 pf (JNumber lit) old_float) = (case pf lit of None \<Rightarrow> old_float | Some x \<Rightarrow> x)"
  "fst (decode_float64 pf JNull old_float) = old_float"
  by (simp_all add: decode_string_def decode_float64_def split: option.splits)

text \<open>
  Claim C7, as amended.  When the provider answers the search request with a JSON
  text, \<^verbatim>\<open>MediaItemsSearch\<close> returns the response decoded from it member by member:
  every field, of the response, of a media item and of the structs below it, holds
  what results from decoding the members that match its name, in the order of the
  payload, over what the field held, which is the zero value at first.  So a field that
  no member matches has its zero value: without \<^verbatim>\<open>nextPageToken\<close> the token is empty,
  without \<^verbatim>\<open>mediaItems\<close> there are no items.  A field that one member matches holds
  that member decoded: one \<^verbatim>\<open>mediaItems\<close> array gives its elements, however many, in
  their order, each decoded into a new item, and a pointer field of one object gives
  that object decoded into a new struct.  A member that is repeated is decoded over
  what the earlier ones left.  A body with \<^verbatim>\<open>nextPageToken\<close> and two media items with
  an \<^verbatim>\<open>id\<close> each decodes to exactly the token and the two items in the order of the
  array, without an error; an item with every member set decodes to every field.
\<close>

theorem MediaItemsSearch_decodes_member_by_member:
  fixes pf :: "string \<Rightarrow> 'f::zero option"
  assumes "t (rawRequest g mediaItemsSearchEndpoint (encode_ptr encode_MediaItemsSearchRequest req))
             = Inr rawResponse"
    and "Body rawResponse = Readable (JSONText j)"
  shows "(\<exists>r e. MediaItemsSearch pf (g\<lparr>gphoto_c := Some t\<rparr>) req = Inr (Some r, e)
        \<and> (r, e) = decode_MediaItemsSearchResponse pf j zero_MediaItemsSearchResponse
        \<and> NextPageToken (PagerResponse r) = field_value decode_string ''nextPageToken'' j []
        \<and> MediaItems r
            = field_value (decode_slice (decode_MediaItem_ptr pf) None) ''mediaItems'' j (Slice [] [])
        \<and> (\<not> has_member ''nextPageToken'' j \<longrightarrow> NextPageToken (PagerResponse r) = [])
        \<and> (\<not> has_member ''mediaItems'' j \<longrightarrow> MediaItems r = Slice [] [])
        \<and> (\<forall>tok. members_for ''nextPageToken'' j = [JString tok] \<longrightarrow>
              NextPageToken (PagerResponse r) = tok)
        \<and> (\<forall>ms. members_for ''mediaItems'' j = [JArray ms] \<longrightarrow>
              MediaItems r = Slice (map (\<lambda>m. fst (decode_MediaItem_ptr pf m None)) ms) [])
        \<and> (\<forall>tok a b.
              j = JObject [(''nextPageToken'', JString tok),
                           (''mediaItems'', JArray [JObject [(''id'', JString a)],
                                                    JObject [(''id'', JString b)]])] \<longrightarrow>
              e = None
              \<and> r = \<lparr>PagerResponse = \<lparr>NextPageToken = tok\<rparr>,
                      MediaItems = Slice [Some (zero_MediaItem\<lparr>ID := a\<rparr>),
                                          Some (zero_MediaItem\<lparr>ID := b\<rparr>)] []\<rparr>))
   \<and> fst (decode_MediaItem_ptr pf m old)
       = (if m = JNull then None
          else Some (fst (decode_struct (MediaItem_field pf) m
                            (case old of None \<Rightarrow> zero_MediaItem | Some v \<Rightarrow> v))))
   \<and> ID (fst (decode_struct (MediaItem_field pf) m item))
       = field_value decode_string ''id'' m (ID item)
   \<and> Description (fst (decode_struct (MediaItem_field pf) m item))
       = field_value decode_string ''description'' m (Description item)
   \<and> ProductURL (fst (decode_struct (MediaItem_field pf) m item))
       = field_value decode_string ''productUrl'' m (ProductURL item)
   \<and> BaseURL (fst (decode_struct (MediaItem_field pf) m item))
       = field_value decode_string ''baseUrl'' m (BaseURL item)
   \<and> MimeType (fst (decode_struct (MediaItem_field pf) m item))
       = field_value decode_string ''mimeType'' m (MimeType item)
   \<and> MediaMetadata (fst (decode_struct (MediaItem_field pf) m item))
       = field_value (decode_ptr (decode_struct (MediaMetadata_field pf)) zero_MediaMetadata) ''mediaMetadata'' m (MediaMetadata item)
   \<and> ContributorInfo (fst (decode_struct (MediaItem_field pf) m item))
       = field_value (decode_ptr (decode_struct ContributorInfo_field) zero_ContributorInfo) ''contributorInfo'' m (ContributorInfo item)
   \<and> Filename (fst (decode_struct (MediaItem_field pf) m item))
       = field_value decode_string ''filename'' m (Filename item)
   \<and> CreationTime (fst (decode_struct (MediaMetadata_field pf) mm meta))
       = field_value decode_string ''creationTime'' mm (CreationTime meta)
   \<and> Width (fst (decode_struct (MediaMetadata_field pf) mm meta))
       = field_value decode_string ''width'' mm (Width meta)
   \<and> Height (fst (decode_struct (MediaMetadata_field pf) mm meta))
       = field_value decode_string ''height'' mm (Height meta)
   \<and> Photo (fst (decode_struct (MediaMetadata_field pf) mm meta))
       = field_value (decode_ptr (decode_struct (Photo_field pf)) zero_Photo) ''photo'' mm (Photo meta)
   \<and> Video (fst (decode_struct (MediaMetadata_field pf) mm meta))
       = field_value (decode_ptr (decode_struct (Video_field pf)) zero_Video) ''video'' mm (Video meta)
   \<and> CameraMake (fst (decode_struct (Photo_field pf) pm photo))
       = field_value decode_string ''cameraMake'' pm (CameraMake photo)
   \<and> CameraModel (fst (decode_struct (Photo_field pf) pm photo))
       = field_value decode_string ''cameraModel'' pm (CameraModel photo)
   \<and> FocalLength (fst (decode_struct (Photo_field pf) pm photo))
       = field_value (decode_float64 pf) ''focalLength'' pm (FocalLength photo)
   \<and> ApertureFNumber (fst (decode_struct (Photo_field pf) pm photo))
       = field_value (decode_float64 pf) ''apertureFNumber'' pm (ApertureFNumber photo)
   \<and> IsoEquivalent (fst (decode_struct (Photo_field pf) pm photo))
       = field_value (decode_float64 pf) ''isoEquivalent'' pm (IsoEquivalent photo)
   \<and> ExposureTime (fst (decode_struct (Photo_field pf) pm photo))
       = field_value decode_string ''exposureTime'' pm (ExposureTime photo)
   \<and> Video_CameraMake (fst (decode_struct (Video_field pf) vm video))
       = field_value decode_string ''cameraMake'' vm (Video_CameraMake video)
   \<and> Video_CameraModel (fst (decode_struct (Video_field pf) vm video))
       = field_value decode_string ''cameraModel'' vm (Video_CameraModel video)
   \<and> Fps (fst (decode_struct (Video_field pf) vm video))
       = field_value (decode_float64 pf) ''fps'' vm (Fps video)
   \<and> Status (fst (decode_struct (Video_field pf) vm video))
       = field_value decode_string ''status'' vm (Status video)
   \<and> ProfilePictureBaseURL (fst (decode_struct (ContributorInfo_field) cm contributor))
       = field_value decode_string ''profilePictureBaseUrl'' cm (ProfilePictureBaseURL contributor)
   \<and> DisplayName (fst (decode_struct (ContributorInfo_field) cm contributor))
       = field_value decode_string ''displayName'' cm (DisplayName contributor)
   \<and> (\<not> has_member n x \<longrightarrow> field_value dec n x init = init)
   \<and> (members_for n x = [v] \<longrightarrow> field_value dec n x init = fst (dec v init))
   \<and> fst (decode_ptr dec zero v old')
       = (if v = JNull then None
          else Some (fst (dec v (case old' of None \<Rightarrow> zero | Some w \<Rightarrow> w))))
   \<and> fst (decode_string (JString str) old_str) = str
   \<and> fst (decode_string JNull old_str) = old_str
   \<and> fst (decode_float64 pf (JNumber lit) old_float) = (case pf lit of None \<Rightarrow> old_float | Some x \<Rightarrow> x)
   \<and> fst (decode_float64 pf JNull old_float) = old_float
   \<and> fst (decode_MediaItem_ptr pf
         (JObject
          [(''id'', JString ''i''), (''description'', JString ''d''), (''productUrl'', JString ''p''),
           (''baseUrl'', JString ''b''), (''mimeType'', JString ''image/jpeg''),
           (''mediaMetadata'', JObject
              [(''creationTime'', JString ''t''), (''width'', JString ''640''), (''height'', JString ''480''),
               (''photo'', JObject
                  [(''cameraMake'', JString ''mk''), (''cameraModel'', JString ''md''),
                   (''focalLength'', JNumber ''4.2''), (''apertureFNumber'', JNumber ''1.8''),
                   (''isoEquivalent'', JNumber ''100''), (''exposureTime'', JString ''0.01s'')]),
               (''video'', JObject
                  [(''cameraMake'', JString ''vk''), (''cameraModel'', JString ''vd''),
                   (''fps'', JNumber ''30''), (''status'', JString ''READY'')])]),
           (''contributorInfo'', JObject
              [(''profilePictureBaseUrl'', JString ''u''), (''displayName'', JString ''n'')]),
           (''filename'', JString ''f.jpg'')])
         None)
       = Some \<lparr>ID = ''i'', Description = ''d'', ProductURL = ''p'', BaseURL = ''b'',
              MimeType = ''image/jpeg'',
              MediaMetadata = Some
                \<lparr>CreationTime = ''t'', Width = ''640'', Height = ''480'',
                 Photo = Some
                   \<lparr>CameraMake = ''mk'', CameraModel = ''md'',
                    FocalLength = (case pf ''4.2'' of None \<Rightarrow> 0 | Some x \<Rightarrow> x),
                    ApertureFNumber = (case pf ''1.8'' of None \<Rightarrow> 0 | Some x \<Rightarrow> x),
                    IsoEquivalent = (case pf ''100'' of None \<Rightarrow> 0 | Some x \<Rightarrow> x),
                    ExposureTime = ''0.01s''\<rparr>,
                 Video = Some
                   \<lparr>Video_CameraMake = ''vk'', Video_CameraModel = ''vd'',
                    Fps = (case pf ''30'' of None \<Rightarrow> 0 | Some x \<Rightarrow> x), Status = ''READY''\<rparr>\<rparr>,
              ContributorInfo = Some \<lparr>ProfilePictureBaseURL = ''u'', DisplayName = ''n''\<rparr>,
              Filename = ''f.jpg''\<rparr>"
proof -
  let ?d = "decode_MediaItemsSearchResponse pf j zero_MediaItemsSearchResponse"
  note top = MediaItemsSearchResponse_fields [of pf j zero_MediaItemsSearchResponse]
  have run: "MediaItemsSearch pf (g\<lparr>gphoto_c := Some t\<rparr>) req = Inr (Some (fst ?d), snd ?d)"
    using assms by (rule MediaItemsSearch_on_JSON)
  have pair: "(fst ?d, snd ?d) = ?d"
    by simp
  have token: "NextPageToken (PagerResponse (fst ?d)) = field_value decode_string ''nextPageToken'' j []"
    and items: "MediaItems (fst ?d)
            = field_value (decode_slice (decode_MediaItem_ptr pf) None) ''mediaItems'' j (Slice [] [])"
    using top by (simp_all add: zero_MediaItemsSearchResponse_def)
  have no_token: "\<not> has_member ''nextPageToken'' j \<longrightarrow> NextPageToken (PagerResponse (fst ?d)) = []"
    and no_items: "\<not> has_member ''mediaItems'' j \<longrightarrow> MediaItems (fst ?d) = Slice [] []"
    by (simp_all add: token items field_value_absent)
  have one_token: "\<forall>tok. members_for ''nextPageToken'' j = [JString tok] \<longrightarrow>
              NextPageToken (PagerResponse (fst ?d)) = tok"
    by (simp add: token field_value_single decode_primitives)
  have one_items: "\<forall>ms. members_for ''mediaItems'' j = [JArray ms] \<longrightarrow>
              MediaItems (fst ?d) = Slice (map (\<lambda>m. fst (decode_MediaItem_ptr pf m None)) ms) []"
    by (simp add: items field_value_single decode_slice_fresh)
  have ids: "\<forall>tok a b.
              j = JObject [(''nextPageToken'', JString tok),
                           (''mediaItems'', JArray [JObject [(''id'', JString a)],
                                                    JObject [(''id'', JString b)]])] \<longrightarrow>
              snd ?d = None
              \<and> fst ?d = \<lparr>PagerResponse = \<lparr>NextPageToken = tok\<rparr>,
                      MediaItems = Slice [Some (zero_MediaItem\<lparr>ID := a\<rparr>),
                                          Some (zero_MediaItem\<lparr>ID := b\<rparr>)] []\<rparr>"
    by (simp add: decode_token_and_two_ids)
  have response: "\<exists>r e. MediaItemsSearch pf (g\<lparr>gphoto_c := Some t\<rparr>) req = Inr (Some r, e)
        \<and> (r, e) = decode_MediaItemsSearchResponse pf j zero_MediaItemsSearchResponse
        \<and> NextPageToken (PagerResponse r) = field_value decode_string ''nextPageToken'' j []
        \<and> MediaItems r
            = field_value (decode_slice (decode_MediaItem_ptr pf) None) ''mediaItems'' j (Slice [] [])
        \<and> (\<not> has_member ''nextPageToken'' j \<longrightarrow> NextPageToken (PagerResponse r) = [])
        \<and> (\<not> has_member ''mediaItems'' j \<longrightarrow> MediaItems r = Slice [] [])
        \<and> (\<forall>tok. members_for ''nextPageToken'' j = [JString tok] \<longrightarrow>
              NextPageToken (PagerResponse r) = tok)
        \<and> (\<forall>ms. members_for ''mediaItems'' j = [JArray ms] \<longrightarrow>
              MediaItems r = Slice (map (\<lambda>m. fst (decode_MediaItem_ptr pf m None)) ms) [])
        \<and> (\<forall>tok a b.
              j = JObject [(''nextPageToken'', JString tok),
                           (''mediaItems'', JArray [JObject [(''id'', JString a)],
                                                    JObject [(''id'', JString b)]])] \<longrightarrow>
              e = None
              \<and> r = \<lparr>PagerResponse = \<lparr>NextPageToken = tok\<rparr>,
                      MediaItems = Slice [Some (zero_MediaItem\<lparr>ID := a\<rparr>),
                                          Some (zero_MediaItem\<lparr>ID := b\<rparr>)] []\<rparr>)"
    by (rule exI [of _ "fst ?d"], rule exI [of _ "snd ?d"], intro conjI)
      (rule run pair token items no_token no_items one_token one_items ids)+
  have item_ptr: "fst (decode_MediaItem_ptr pf m old)
       = (if m = JNull then None
          else Some (fst (decode_struct (MediaItem_field pf) m
                            (case old of None \<Rightarrow> zero_MediaItem | Some v \<Rightarrow> v))))"
    by (simp add: decode_MediaItem_ptr_def decode_ptr_value)
  have absent: "\<not> has_member n x \<longrightarrow> field_value dec n x init = init"
    by (simp add: field_value_absent)
  have single: "members_for n x = [v] \<longrightarrow> field_value dec n x init = fst (dec v init)"
    by (simp add: field_value_single)
  show ?thesis
    by (intro conjI)
      (rule response item_ptr MediaItem_fields MediaMetadata_fields Photo_fields Video_fields
         ContributorInfo_fields absent single decode_ptr_value decode_primitives decode_full_item)+
qed

theorem MediaItemsSearch_decodes_member_by_member_witness:
  "MediaItemsSearch (\<lambda>lit. None :: int option)
     (gphoto_NewClient
        (Some (stub_provider 200 (Readable (JSONText (JObject
           [(''nextPageToken'', JString ''next''),
            (''mediaItems'', JArray [JObject [(''id'', JString ''first'')],
                                     JObject [(''id'', JString ''second'')]])])))))
        ''token'')
     (Some pets_request)
   = Inr (Some \<lparr>PagerResponse = \<lparr>NextPageToken = ''next''\<rparr>,
                 MediaItems = Slice [Some (zero_MediaItem\<lparr>ID := ''first''\<rparr>),
                                     Some (zero_MediaItem\<lparr>ID := ''second''\<rparr>)] []\<rparr>, None)"
proof -
  let ?j = "JObject [(''nextPageToken'', JString ''next''),
            (''mediaItems'', JArray [JObject [(''id'', JString ''first'')],
                                     JObject [(''id'', JString ''second'')]])]"
  let ?t = "stub_provider 200 (Readable (JSONText ?j))"
  let ?g = "gphoto_NewClient None ''token''"
  let ?pf = "\<lambda>lit :: string. None :: int option"
  have sent: "?t (rawRequest ?g mediaItemsSearchEndpoint
                  (encode_ptr encode_MediaItemsSearchRequest (Some pets_request)))
      = Inr \<lparr>StatusCode = 200, Body = Readable (JSONText ?j)\<rparr>"
    by (simp add: stub_provider_def)
  have b: "Body \<lparr>StatusCode = 200, Body = Readable (JSONText ?j)\<rparr> = Readable (JSONText ?j)"
    by simp
  have same: "?g\<lparr>gphoto_c := Some ?t\<rparr> = gphoto_NewClient (Some ?t) ''token''"
    by (simp add: gphoto_NewClient_def)
  note w = MediaItemsSearch_decodes_member_by_member
    [where t = ?t and g = ?g and req = "Some pets_request" and j = ?j and pf = ?pf
       and rawResponse = "\<lparr>StatusCode = 200, Body = Readable (JSONText ?j)\<rparr>", OF sent b,
     THEN conjunct1]
  from w obtain r e
    where run: "MediaItemsSearch ?pf (?g\<lparr>gphoto_c := Some ?t\<rparr>) (Some pets_request) = Inr (Some r, e)"
      and ids: "\<forall>tok a b.
           ?j = JObject [(''nextPageToken'', JString tok),
                        (''mediaItems'', JArray [JObject [(''id'', JString a)], JObject [(''id'', JString b)]])] \<longrightarrow>
           e = None
           \<and> r = \<lparr>PagerResponse = \<lparr>NextPageToken = tok\<rparr>,
                   MediaItems = Slice [Some (zero_MediaItem\<lparr>ID := a\<rparr>), Some (zero_MediaItem\<lparr>ID := b\<rparr>)] []\<rparr>"
    by (elim exE conjE)
  from ids have "e = None \<and> r = \<lparr>PagerResponse = \<lparr>NextPageToken = ''next''\<rparr>,
                 MediaItems = Slice [Some (zero_MediaItem\<lparr>ID := ''first''\<rparr>),
                                     Some (zero_MediaItem\<lparr>ID := ''second''\<rparr>)] []\<rparr>"
    by simp
  with run show ?thesis
    unfolding same by simp
qed

lemmas eval_decode_items = MediaItemsSearch_def request_def Marshal_MediaItemsSearchRequest_def
  gphoto_NewClient_def stub_provider_def ReadAll_def Unmarshal_def
  decode_MediaItemsSearchResponse_def decode_struct_def MediaItemsSearchResponse_field_def
  decode_slice_def decode_MediaItem_ptr_def decode_ptr_def MediaItem_field_def decode_string_def
  zero_MediaItemsSearchResponse_def saveError_def eval_field

text \<open>
  The claim as it was written fails where the payload repeats a member.  The element
  of the second \<^verbatim>\<open>mediaItems\<close> has no \<^verbatim>\<open>id\<close>, and the item decoded from it has the
  \<^verbatim>\<open>id\<close> of the element before it.  After arrays of two, one and two elements, the
  second item of the last array, an empty object, has the \<^verbatim>\<open>id\<close> of the second item of
  the first.
\<close>

theorem repeated_member_keeps_absent_fields_counterexample:
  "\<not> has_member ''id'' (JObject [(''description'', JString ''d'')])
   \<and> MediaItemsSearch (\<lambda>lit. None :: int option)
       (gphoto_NewClient
          (Some (stub_provider 200 (Readable (JSONText (JObject
             [(''mediaItems'', JArray [JObject [(''id'', JString ''a'')]]),
              (''mediaItems'', JArray [JObject [(''description'', JString ''d'')]])])))))
          ''token'')
       (Some pets_request)
     = Inr (Some \<lparr>PagerResponse = \<lparr>NextPageToken = []\<rparr>,
                   MediaItems = Slice [Some (zero_MediaItem\<lparr>ID := ''a'', Description := ''d''\<rparr>)] []\<rparr>,
            None)
   \<and> MediaItemsSearch (\<lambda>lit. None :: int option)
       (gphoto_NewClient
          (Some (stub_provider 200 (Readable (JSONText (JObject
             [(''mediaItems'', JArray [JObject [(''id'', JString ''a'')], JObject [(''id'', JString ''b'')]]),
              (''mediaItems'', JArray [JObject [(''id'', JString ''c'')]]),
              (''mediaItems'', JArray [JObject [], JObject []])])))))
          ''token'')
       (Some pets_request)
     = Inr (Some \<lparr>PagerResponse = \<lparr>NextPageToken = []\<rparr>,
                   MediaItems = Slice [Some (zero_MediaItem\<lparr>ID := ''c''\<rparr>),
                                       Some (zero_MediaItem\<lparr>ID := ''b''\<rparr>)] []\<rparr>,
            None)"
  by (simp add: eval_decode_items has_member_def members_def zero_MediaItem_def del: foldName.simps)

subsection \<open>The returned pointer\<close>










end
